theory Spec2Isabelle
  imports Complex_Main "HOL-Library.Multiset" "HOL-Library.Word"
begin

section \<open>JavaScript values the handlers compute with\<close>

text \<open>
  The server of \<^verbatim>\<open>src/server/index.js\<close> is an Express application over MongoDB: a
  GridFS bucket holds the uploaded files, a Mongoose model \<^verbatim>\<open>Pdf\<close> holds one metadata
  document per upload. The handlers are embedded as functions from the request and the
  state of the process and of the database to a response and the new state.

  A JavaScript number is a binary64 value. It is represented by \<open>NaN\<close>, the two
  infinities, or the rational it denotes; \<open>-0\<close> and \<open>+0\<close> are both \<open>Fin 0\<close>
  (the handlers only test a number for truthiness and compare it with \<open>0\<close>, and neither
  tells the two zeros apart).
\<close>

datatype jsnum = NaN | NegInf | Fin rat | PosInf

text \<open>Truthiness of a number: every number but \<open>NaN\<close> and zero.\<close>

definition truthy_num :: "jsnum \<Rightarrow> bool" where
  "truthy_num n = (n \<noteq> NaN \<and> n \<noteq> Fin 0)"

text \<open>\<^verbatim>\<open>a || b\<close> on numbers.\<close>

definition or_num :: "jsnum \<Rightarrow> jsnum \<Rightarrow> jsnum" where
  "or_num a b = (if truthy_num a then a else b)"

text \<open>\<^verbatim>\<open>a > b\<close> on numbers: false as soon as one side is \<open>NaN\<close>.\<close>

fun js_gt :: "jsnum \<Rightarrow> jsnum \<Rightarrow> bool" where
  "js_gt NaN b = False"
| "js_gt a NaN = False"
| "js_gt NegInf b = False"
| "js_gt (Fin x) NegInf = True"
| "js_gt (Fin x) (Fin y) = (y < x)"
| "js_gt (Fin x) PosInf = False"
| "js_gt PosInf PosInf = False"
| "js_gt PosInf b = True"

text \<open>
  \<^verbatim>\<open>a || b\<close> where \<open>a\<close> is a form field (a string, or \<^verbatim>\<open>undefined\<close>, here \<open>None\<close>)
  and \<open>b\<close> a string: the empty string and \<^verbatim>\<open>undefined\<close> are falsy.
\<close>

definition or_str :: "string option \<Rightarrow> string \<Rightarrow> string" where
  "or_str a b = (case a of None \<Rightarrow> b | Some s \<Rightarrow> if s = [] then b else s)"

subsection \<open>\<^verbatim>\<open>Number(v)\<close> on a form field\<close>

text \<open>
  \<^verbatim>\<open>Number(undefined)\<close> is \<open>NaN\<close>. On a string the built-in strips white space, reads
  the empty string as \<open>0\<close> and a numeric literal as its value rounded to binary64, and
  gives \<open>NaN\<close> on anything else. Signed decimal integer literals of magnitude at most
  \<open>2^53\<close> are read here exactly (they are their own binary64 value). For every other
  string (a fraction, an exponent, a radix prefix, \<^verbatim>\<open>Infinity\<close>, a longer digit
  string, a string that is no literal) the value is what the parameter \<open>lit\<close> gives:
  the theorems below hold for every \<open>lit\<close>, so for the built-in's too.
\<close>

definition is_space :: "char \<Rightarrow> bool" where
  "is_space c = (c \<in> set [CHR 0x09, CHR 0x0A, CHR 0x0B, CHR 0x0C, CHR 0x0D, CHR 0x20, CHR 0xA0])"

definition trim :: "string \<Rightarrow> string" where
  "trim s = rev (dropWhile is_space (rev (dropWhile is_space s)))"

definition digit :: "char \<Rightarrow> nat option" where
  "digit c = map_of
     [(CHR ''0'', 0), (CHR ''1'', 1), (CHR ''2'', 2), (CHR ''3'', 3), (CHR ''4'', 4),
      (CHR ''5'', 5), (CHR ''6'', 6), (CHR ''7'', 7), (CHR ''8'', 8), (CHR ''9'', 9)] c"

fun digits :: "nat \<Rightarrow> string \<Rightarrow> nat option" where
  "digits acc [] = Some acc"
| "digits acc (c # cs) =
     (case digit c of None \<Rightarrow> None | Some d \<Rightarrow> digits (10 * acc + d) cs)"

definition int_literal :: "string \<Rightarrow> int option" where
  "int_literal s =
     (case s of
        [] \<Rightarrow> None
      | c # cs \<Rightarrow>
          if c = CHR ''-'' then (if cs = [] then None else map_option (\<lambda>n. - int n) (digits 0 cs))
          else if c = CHR ''+'' then (if cs = [] then None else map_option int (digits 0 cs))
          else map_option int (digits 0 s))"

definition Number :: "(string \<Rightarrow> jsnum) \<Rightarrow> string option \<Rightarrow> jsnum" where
  "Number lit v =
     (case v of
        None \<Rightarrow> NaN
      | Some s \<Rightarrow>
          let t = trim s in
          if t = [] then Fin 0
          else (case int_literal t of
                  None \<Rightarrow> lit t
                | Some n \<Rightarrow> if \<bar>n\<bar> \<le> 2 ^ 53 then Fin (of_int n) else lit t))"

subsection \<open>Object identifiers\<close>

text \<open>
  An \<^verbatim>\<open>ObjectId\<close> is written as 24 hexadecimal digits; it is kept as that string in
  lower case. \<^verbatim>\<open>new mongoose.Types.ObjectId(s)\<close> and Mongoose's cast of an \<^verbatim>\<open>_id\<close>
  throw on a string that is not of this form: the result \<open>None\<close>. (Drivers before
  version 5 of the BSON library also took a string of 12 characters; no property below
  depends on which strings are well formed.)
\<close>

datatype oid = OID string

definition hex_lower :: "char \<Rightarrow> char option" where
  "hex_lower c = map_of
     [(CHR ''0'', CHR ''0''), (CHR ''1'', CHR ''1''), (CHR ''2'', CHR ''2''),
      (CHR ''3'', CHR ''3''), (CHR ''4'', CHR ''4''), (CHR ''5'', CHR ''5''),
      (CHR ''6'', CHR ''6''), (CHR ''7'', CHR ''7''), (CHR ''8'', CHR ''8''),
      (CHR ''9'', CHR ''9''), (CHR ''a'', CHR ''a''), (CHR ''b'', CHR ''b''),
      (CHR ''c'', CHR ''c''), (CHR ''d'', CHR ''d''), (CHR ''e'', CHR ''e''),
      (CHR ''f'', CHR ''f''), (CHR ''A'', CHR ''a''), (CHR ''B'', CHR ''b''),
      (CHR ''C'', CHR ''c''), (CHR ''D'', CHR ''d''), (CHR ''E'', CHR ''e''),
      (CHR ''F'', CHR ''f'')] c"

definition ObjectId :: "string \<Rightarrow> oid option" where
  "ObjectId s = (if length s = 24 then map_option OID (those (map hex_lower s)) else None)"

section \<open>Data model\<close>

type_synonym byte = "8 word"

text \<open>
  A document of the model \<^verbatim>\<open>Pdf\<close> (the schema \<^verbatim>\<open>pdfSchema\<close>). \<open>doc_id\<close> is the
  document's \<^verbatim>\<open>_id\<close>. A path the constructor was given \<^verbatim>\<open>undefined\<close> for is \<open>None\<close>;
  the upload handler always gives \<open>author\<close>, \<open>price\<close>, \<open>fileId\<close>, \<open>fileName\<close> and
  \<open>locked\<close> a value, and \<open>createdAt\<close> takes its default \<^verbatim>\<open>Date.now\<close> (milliseconds).
\<close>

record pdf =
  doc_id :: oid
  title :: "string option"
  author :: string
  price :: jsnum
  category :: "string option"
  description :: "string option"
  fileId :: oid
  fileName :: string
  createdAt :: int
  locked :: bool

text \<open>A file of the GridFS bucket: its document in \<^verbatim>\<open>uploads.files\<close> and its chunks.\<close>

record gridfs_file =
  filename :: string
  contentType :: string
  chunks :: "byte list list"

text \<open>
  The handle \<^verbatim>\<open>gridfsBucket\<close>. The source names the bucket and leaves the chunk size
  to the driver's default, 255 KiB.
\<close>

record bucket =
  bucketName :: string
  chunkSizeBytes :: nat

datatype err =
    LimitFileSize
  | StorageFailure
  | FileNotFound oid
  | ValidationError "string list"
  | DuplicateKey oid
  | CastError string
  | ConnectionFailure

text \<open>The lines the handlers print (\<^verbatim>\<open>console.log\<close>, \<^verbatim>\<open>console.warn\<close>, \<^verbatim>\<open>console.error\<close>).\<close>

datatype logline =
    GridFSReady
  | ReceivedUpload
  | FileUploaded oid
  | MetadataSaved "string option"
  | UploadFailure err
  | CleanupWarning err
  | GlobalServerError err

text \<open>
  The state: the module variable \<^verbatim>\<open>gridfsBucket\<close> (\<open>None\<close> until the connection's
  \<^verbatim>\<open>open\<close> event), the files of the bucket by id, the collection of \<^verbatim>\<open>Pdf\<close>
  documents in insertion order, and the console.
\<close>

record state =
  gridfsBucket :: "bucket option"
  uploads :: "oid \<rightharpoonup> gridfs_file"
  pdfs :: "pdf list"
  console :: "logline list"

text \<open>
  What one request takes from outside the program: the clock, the identifiers the
  driver mints for the new file and the new document, the storage name of line 78
  (32 random hexadecimal digits and \<^verbatim>\<open>path.extname\<close> of the original name), and the
  database operations that fail with an I/O error during this request.
\<close>

datatype io = GridWrite | GridRead | GridDelete | CatSave | CatFind | CatFindOne | CatDelete

record env =
  now :: int
  fresh_file_id :: oid
  fresh_doc_id :: oid
  storage_name :: string
  io_errors :: "io set"

text \<open>
  The file part of a multipart request as it arrives (the pieces of its content in
  order), and \<^verbatim>\<open>req.file\<close> as \<^verbatim>\<open>multer\<close> hands it to the handler.
\<close>

record file_part =
  part_name :: string
  part_type :: string
  part_data :: "byte list list"

record req_file =
  originalname :: string
  mimetype :: string
  buffer :: "byte list"

text \<open>
  A request to \<^verbatim>\<open>POST /api/pdfs\<close>: the file part, if there is one, and the text fields
  (\<^verbatim>\<open>req.body\<close>: each field a string, or absent).
\<close>

record request =
  upload_part :: "file_part option"
  body :: "string \<rightharpoonup> string"

datatype payload =
    ErrorJson string "err option"
  | PdfJson pdf
  | PdfsJson "pdf list"
  | MessageJson string
  | PdfStream "byte list"

record response =
  status :: nat
  payload :: payload

definition console_log :: "logline \<Rightarrow> state \<Rightarrow> state" where
  "console_log l s = s\<lparr>console := console s @ [l]\<rparr>"

text \<open>The handler of the connection's \<^verbatim>\<open>open\<close> event (lines 32 to 37).\<close>

definition on_open :: "state \<Rightarrow> state" where
  "on_open s =
     console_log GridFSReady
       (s\<lparr>gridfsBucket := Some \<lparr>bucketName = ''uploads'', chunkSizeBytes = 255 * 1024\<rparr>\<rparr>)"

section \<open>The libraries' operations\<close>

subsection \<open>multer with memory storage\<close>

text \<open>
  \<^verbatim>\<open>multer({ storage: multer.memoryStorage(), limits: { fileSize: 20 * 1024 * 1024 } })\<close>
  and \<^verbatim>\<open>upload.single('file')\<close>: the middleware reads the whole file part, joins its
  pieces into one buffer, and only then calls the handler. A part longer than the limit
  is an error handed to the application's error handler.
\<close>

definition fileSize :: nat where
  "fileSize = 20 * 1024 * 1024"

definition memoryStorage :: "file_part \<Rightarrow> req_file" where
  "memoryStorage p =
     \<lparr>originalname = part_name p, mimetype = part_type p, buffer = concat (part_data p)\<rparr>"

definition upload_single :: "file_part option \<Rightarrow> err + req_file option" where
  "upload_single fp =
     (case fp of
        None \<Rightarrow> Inr None
      | Some p \<Rightarrow>
          if fileSize < length (concat (part_data p)) then Inl LimitFileSize
          else Inr (Some (memoryStorage p)))"

subsection \<open>The GridFS bucket\<close>

text \<open>The upload stream cuts what it is given into chunks of the bucket's chunk size.\<close>

function slice :: "nat \<Rightarrow> 'a list \<Rightarrow> 'a list list" where
  "slice n xs = (if n = 0 \<or> xs = [] then [] else take n xs # slice n (drop n xs))"
  by pat_completeness auto
termination
  by (relation "measure (\<lambda>(n, xs). length xs)") auto

declare slice.simps [simp del]

text \<open>
  \<^verbatim>\<open>openUploadStream(filename, { contentType })\<close>, \<^verbatim>\<open>uploadStream.end(buffer)\<close> and the
  promise of lines 86 to 90: \<open>Inl\<close> is the stream's \<^verbatim>\<open>error\<close> event (the promise
  rejects), \<open>Inr\<close> its \<^verbatim>\<open>finish\<close> event, the file stored under \<^verbatim>\<open>uploadStream.id\<close>.
  \<open>stream_writes\<close> lists the buffers the handler writes to the stream: one, the whole
  file.
\<close>

definition stream_writes :: "req_file \<Rightarrow> byte list list" where
  "stream_writes f = [buffer f]"

definition upload_end :: "env \<Rightarrow> bucket \<Rightarrow> string \<Rightarrow> string \<Rightarrow> byte list list \<Rightarrow> state \<Rightarrow> err + state" where
  "upload_end e b name ctype writes s =
     (if GridWrite \<in> io_errors e then Inl StorageFailure
      else if uploads s (fresh_file_id e) \<noteq> None then Inl (DuplicateKey (fresh_file_id e))
      else Inr (s\<lparr>uploads := (uploads s)(fresh_file_id e \<mapsto>
             \<lparr>filename = name, contentType = ctype,
              chunks = slice (chunkSizeBytes b) (concat writes)\<rparr>)\<rparr>))"

text \<open>
  \<^verbatim>\<open>openDownloadStream(fileId)\<close> piped to the response: \<open>Inl\<close> is the stream's
  \<^verbatim>\<open>error\<close> event before the first byte, \<open>Inr\<close> the bytes piped.
\<close>

definition openDownloadStream :: "env \<Rightarrow> state \<Rightarrow> oid \<Rightarrow> err + byte list" where
  "openDownloadStream e s i =
     (case uploads s i of
        None \<Rightarrow> Inl (FileNotFound i)
      | Some f \<Rightarrow> if GridRead \<in> io_errors e then Inl StorageFailure else Inr (concat (chunks f)))"

text \<open>\<^verbatim>\<open>gridfsBucket.delete(id)\<close>: rejects when the bucket has no file of that id.\<close>

definition bucket_delete :: "env \<Rightarrow> state \<Rightarrow> oid \<Rightarrow> err + state" where
  "bucket_delete e s i =
     (if GridDelete \<in> io_errors e then Inl StorageFailure
      else (case uploads s i of
              None \<Rightarrow> Inl (FileNotFound i)
            | Some f \<Rightarrow> Inr (s\<lparr>uploads := (uploads s)(i := None)\<rparr>)))"

subsection \<open>The Mongoose model\<close>

text \<open>
  The schema's \<^verbatim>\<open>required: true\<close> on \<open>title\<close> and \<open>category\<close>: a string path is
  missing when it is \<^verbatim>\<open>undefined\<close> or the empty string. (\<open>fileId\<close> is required too
  and always given.) \<open>validate_doc\<close> lists the paths that fail.
\<close>

definition missing :: "string option \<Rightarrow> bool" where
  "missing v = (case v of None \<Rightarrow> True | Some s \<Rightarrow> s = [])"

definition validate_doc :: "pdf \<Rightarrow> string list" where
  "validate_doc d =
     (if missing (title d) then [''title''] else []) @
     (if missing (category d) then [''category''] else [])"

text \<open>
  \<^verbatim>\<open>doc.save()\<close>: validation first, then the insert, which the collection's unique index
  on \<^verbatim>\<open>_id\<close> refuses for an identifier already there.
\<close>

definition save :: "env \<Rightarrow> pdf \<Rightarrow> state \<Rightarrow> err + pdf \<times> state" where
  "save e d s =
     (case validate_doc d of
        p # ps \<Rightarrow> Inl (ValidationError (p # ps))
      | [] \<Rightarrow>
          if CatSave \<in> io_errors e then Inl ConnectionFailure
          else if doc_id d \<in> set (map doc_id (pdfs s)) then Inl (DuplicateKey (doc_id d))
          else Inr (d, s\<lparr>pdfs := pdfs s @ [d]\<rparr>))"

text \<open>
  \<^verbatim>\<open>Pdf.find().sort({ createdAt: -1 })\<close>. The database does not say in which order it
  returns documents of the same \<open>createdAt\<close>; here they keep their insertion order.
\<close>

definition find_sorted :: "env \<Rightarrow> state \<Rightarrow> err + pdf list" where
  "find_sorted e s =
     (if CatFind \<in> io_errors e then Inl ConnectionFailure
      else Inr (sort_key (\<lambda>d. - createdAt d) (pdfs s)))"

text \<open>\<^verbatim>\<open>Pdf.findById(id)\<close>: \<open>Inr None\<close> is \<^verbatim>\<open>null\<close>.\<close>

definition findById :: "env \<Rightarrow> state \<Rightarrow> string \<Rightarrow> err + pdf option" where
  "findById e s i =
     (case ObjectId i of
        None \<Rightarrow> Inl (CastError i)
      | Some k \<Rightarrow>
          if CatFindOne \<in> io_errors e then Inl ConnectionFailure
          else Inr (find (\<lambda>d. doc_id d = k) (pdfs s)))"

text \<open>\<^verbatim>\<open>Pdf.findByIdAndDelete(id)\<close>: removes the first document of that id, if any.\<close>

fun delete_first :: "oid \<Rightarrow> pdf list \<Rightarrow> pdf list" where
  "delete_first k [] = []"
| "delete_first k (d # ds) = (if doc_id d = k then ds else d # delete_first k ds)"

definition findByIdAndDelete :: "env \<Rightarrow> state \<Rightarrow> string \<Rightarrow> err + state" where
  "findByIdAndDelete e s i =
     (case ObjectId i of
        None \<Rightarrow> Inl (CastError i)
      | Some k \<Rightarrow>
          if CatDelete \<in> io_errors e then Inl ConnectionFailure
          else Inr (s\<lparr>pdfs := delete_first k (pdfs s)\<rparr>))"

section \<open>The routes\<close>

definition reply :: "nat \<Rightarrow> payload \<Rightarrow> response" where
  "reply c p = \<lparr>status = c, payload = p\<rparr>"

text \<open>The application's error handler (lines 175 to 181).\<close>

definition error_handler :: "err \<Rightarrow> state \<Rightarrow> response \<times> state" where
  "error_handler x s =
     (reply 500 (ErrorJson ''An internal server error occurred'' (Some x)),
      console_log (GlobalServerError x) s)"

subsection \<open>\<^verbatim>\<open>POST /api/pdfs\<close> (lines 63 to 117)\<close>

text \<open>\<^verbatim>\<open>new Pdf({ ... })\<close> of lines 95 to 104, with the schema's default for \<open>createdAt\<close>.\<close>

definition new_Pdf :: "(string \<Rightarrow> jsnum) \<Rightarrow> env \<Rightarrow> (string \<rightharpoonup> string) \<Rightarrow> req_file \<Rightarrow> oid \<Rightarrow> pdf" where
  "new_Pdf lit e b f fid =
     \<lparr>doc_id = fresh_doc_id e,
      title = b ''title'',
      author = or_str (b ''author'') ''Unknown'',
      price = or_num (Number lit (b ''price'')) (Fin 0),
      category = b ''category'',
      description = b ''description'',
      fileId = fid,
      fileName = originalname f,
      createdAt = now e,
      locked = js_gt (or_num (Number lit (b ''price'')) (Fin 0)) (Fin 0)\<rparr>"

text \<open>The \<^verbatim>\<open>catch\<close> block of lines 110 to 116.\<close>

definition upload_failure :: "err \<Rightarrow> state \<Rightarrow> response \<times> state" where
  "upload_failure x s =
     (reply 500 (ErrorJson ''Failed to process PDF upload'' (Some x)),
      console_log (UploadFailure x) s)"

text \<open>
  The state of the handler after the file is stored and before the document is saved
  (\<open>s3\<close> below, written out): the properties of the route are stated with it.
\<close>

definition stored :: "env \<Rightarrow> bucket \<Rightarrow> req_file \<Rightarrow> state \<Rightarrow> state" where
  "stored e b f s =
     console_log (FileUploaded (fresh_file_id e))
       ((console_log ReceivedUpload s)\<lparr>uploads := (uploads s)(fresh_file_id e \<mapsto>
             \<lparr>filename = storage_name e, contentType = mimetype f,
              chunks = slice (chunkSizeBytes b) (buffer f)\<rparr>)\<rparr>)"

definition post_pdfs :: "(string \<Rightarrow> jsnum) \<Rightarrow> env \<Rightarrow> state \<Rightarrow> request \<Rightarrow> response \<times> state" where
  "post_pdfs lit e s rq =
     (case upload_single (upload_part rq) of
        Inl x \<Rightarrow> error_handler x s
      | Inr fo \<Rightarrow>
          let s1 = console_log ReceivedUpload s in
          (case fo of
             None \<Rightarrow> (reply 400 (ErrorJson ''No file uploaded'' None), s1)
           | Some f \<Rightarrow>
               (case gridfsBucket s1 of
                  None \<Rightarrow> (reply 503 (ErrorJson ''Database/GridFS not ready'' None), s1)
                | Some b \<Rightarrow>
                    (case upload_end e b (storage_name e) (mimetype f) (stream_writes f) s1 of
                       Inl x \<Rightarrow> upload_failure x s1
                     | Inr s2 \<Rightarrow>
                         let s3 = console_log (FileUploaded (fresh_file_id e)) s2;
                             newPdf = new_Pdf lit e (body rq) f (fresh_file_id e)
                         in (case save e newPdf s3 of
                               Inl x \<Rightarrow> upload_failure x s3
                             | Inr (savedPdf, s4) \<Rightarrow>
                                 (reply 201 (PdfJson savedPdf),
                                  console_log (MetadataSaved (title savedPdf)) s4))))))"

subsection \<open>\<^verbatim>\<open>GET /api/pdfs\<close> (lines 121 to 128)\<close>

definition get_pdfs :: "env \<Rightarrow> state \<Rightarrow> response \<times> state" where
  "get_pdfs e s =
     (case find_sorted e s of
        Inl x \<Rightarrow> (reply 500 (ErrorJson ''Failed to fetch PDFs'' None), s)
      | Inr ds \<Rightarrow> (reply 200 (PdfsJson ds), s))"

subsection \<open>\<^verbatim>\<open>GET /api/pdfs/file/:id\<close> (lines 132 to 150)\<close>

text \<open>
  The response of a stream that pipes is \<open>200\<close> with \<^verbatim>\<open>Content-Type: application/pdf\<close>
  (\<open>PdfStream\<close>); the stream's \<^verbatim>\<open>error\<close> event answers \<open>404\<close>.
\<close>

definition get_pdfs_file :: "env \<Rightarrow> state \<Rightarrow> string \<Rightarrow> response \<times> state" where
  "get_pdfs_file e s i =
     (case gridfsBucket s of
        None \<Rightarrow> (reply 503 (ErrorJson ''Stream engine not ready'' None), s)
      | Some b \<Rightarrow>
          (case ObjectId i of
             None \<Rightarrow> (reply 500 (ErrorJson ''Invalid document ID'' None), s)
           | Some fid \<Rightarrow>
               (case openDownloadStream e s fid of
                  Inl x \<Rightarrow> (reply 404 (ErrorJson ''Document content not found'' None), s)
                | Inr bytes \<Rightarrow> (reply 200 (PdfStream bytes), s))))"

subsection \<open>\<^verbatim>\<open>DELETE /api/pdfs/:id\<close> (lines 154 to 172)\<close>

text \<open>
  Mongoose holds an operation that is issued before the connection is open until the
  connection's \<^verbatim>\<open>open\<close> event, and rejects it when the event does not come in time (the
  operation is then among \<open>io_errors\<close>). So when such an operation has returned a
  result, the event has happened: if the handle was not set when the request arrived,
  the event's handler (lines 32 to 37) has set it since. \<open>opened\<close> is the state then.
\<close>

definition opened :: "state \<Rightarrow> state" where
  "opened s = (case gridfsBucket s of None \<Rightarrow> on_open s | Some b \<Rightarrow> s)"

text \<open>Lines 159 to 165: the file's deletion, skipped without a bucket, its failure logged.\<close>

definition file_cleanup :: "env \<Rightarrow> state \<Rightarrow> pdf \<Rightarrow> state" where
  "file_cleanup e s d =
     (case gridfsBucket s of
        None \<Rightarrow> s
      | Some b \<Rightarrow>
          (case bucket_delete e s (fileId d) of
             Inl x \<Rightarrow> console_log (CleanupWarning x) s
           | Inr s' \<Rightarrow> s'))"

text \<open>
  The handler reads \<^verbatim>\<open>gridfsBucket\<close> on line 159, after the lookup of line 156 has returned
  a document: the cleanup and what follows it run in the state \<open>opened s\<close>. Where the
  lookup fails or finds nothing, the handler has changed nothing, and the state is
  returned as the request found it.
\<close>

definition delete_pdfs :: "env \<Rightarrow> state \<Rightarrow> string \<Rightarrow> response \<times> state" where
  "delete_pdfs e s i =
     (case findById e s i of
        Inl x \<Rightarrow> (reply 500 (ErrorJson ''Failed to delete PDF'' None), s)
      | Inr None \<Rightarrow> (reply 404 (ErrorJson ''PDF not found'' None), s)
      | Inr (Some d) \<Rightarrow>
          let s1 = file_cleanup e (opened s) d in
          (case findByIdAndDelete e s1 i of
             Inl x \<Rightarrow> (reply 500 (ErrorJson ''Failed to delete PDF'' None), s1)
           | Inr s2 \<Rightarrow> (reply 200 (MessageJson ''PDF deleted successfully''), s2)))"

subsection \<open>Sequences of events\<close>

text \<open>
  What happens to the server: the connection opens, or a request arrives (with what it
  takes from outside). \<open>run\<close> is the state after a sequence of events.
\<close>

datatype event =
    Open
  | PostPdfs env request
  | GetPdfs env
  | GetPdfsFile env string
  | DeletePdfs env string

fun handle :: "(string \<Rightarrow> jsnum) \<Rightarrow> state \<Rightarrow> event \<Rightarrow> state" where
  "handle lit s Open = on_open s"
| "handle lit s (PostPdfs e rq) = snd (post_pdfs lit e s rq)"
| "handle lit s (GetPdfs e) = snd (get_pdfs e s)"
| "handle lit s (GetPdfsFile e i) = snd (get_pdfs_file e s i)"
| "handle lit s (DeletePdfs e i) = snd (delete_pdfs e s i)"

fun run :: "(string \<Rightarrow> jsnum) \<Rightarrow> state \<Rightarrow> event list \<Rightarrow> state" where
  "run lit s [] = s"
| "run lit s (ev # evs) = run lit (handle lit s ev) evs"

text \<open>The process at start, over an empty database.\<close>

definition startup :: state where
  "startup = \<lparr>gridfsBucket = None, uploads = Map.empty, pdfs = [], console = []\<rparr>"

text \<open>The events that are an upload whose price field reads as a negative number.\<close>

fun negative_price :: "(string \<Rightarrow> jsnum) \<Rightarrow> event \<Rightarrow> bool" where
  "negative_price lit (PostPdfs e rq) = js_gt (Fin 0) (Number lit (body rq ''price''))"
| "negative_price lit ev = False"

section \<open>Examples\<close>

text \<open>
  Concrete inputs for the examples that follow the theorems. The parameter \<open>lit\<close> is
  fixed to \<open>lit_nan\<close> there; the price fields of the examples are absent or integer
  literals, which \<open>Number\<close> reads without it.
\<close>

definition lit_nan :: "string \<Rightarrow> jsnum" where
  "lit_nan t = NaN"

definition env1 :: env where
  "env1 = \<lparr>now = 1000, fresh_file_id = OID ''00000000000000000000f001'',
     fresh_doc_id = OID ''00000000000000000000d001'',
     storage_name = ''5d41402abc4b2a76b9719d911017c592.pdf'', io_errors = {}\<rparr>"

definition env2 :: env where
  "env2 = \<lparr>now = 2000, fresh_file_id = OID ''00000000000000000000f002'',
     fresh_doc_id = OID ''00000000000000000000d002'',
     storage_name = ''7d793037a0760186574b0282f2f435e7.pdf'', io_errors = {}\<rparr>"

definition env3 :: env where
  "env3 = \<lparr>now = 3000, fresh_file_id = OID ''00000000000000000000f003'',
     fresh_doc_id = OID ''00000000000000000000d003'',
     storage_name = ''9a0364b9e99bb480dd25e1f0284c8555.pdf'', io_errors = {}\<rparr>"

definition one_byte :: file_part where
  "one_byte = \<lparr>part_name = ''a.pdf'', part_type = ''application/pdf'', part_data = [[0x25]]\<rparr>"

definition rq_min :: request where
  "rq_min = \<lparr>upload_part = Some one_byte, body = [''title'' \<mapsto> ''A'', ''category'' \<mapsto> ''B'']\<rparr>"

definition rq_15 :: request where
  "rq_15 = \<lparr>upload_part = Some one_byte,
     body = [''title'' \<mapsto> ''A'', ''category'' \<mapsto> ''B'', ''price'' \<mapsto> ''15'']\<rparr>"

definition rq_neg :: request where
  "rq_neg = \<lparr>upload_part = Some one_byte,
     body = [''title'' \<mapsto> ''A'', ''category'' \<mapsto> ''B'', ''price'' \<mapsto> ''-5'']\<rparr>"

definition rq_untitled :: request where
  "rq_untitled = \<lparr>upload_part = Some one_byte, body = [''category'' \<mapsto> ''B'']\<rparr>"

definition rq_nofile :: request where
  "rq_nofile = \<lparr>upload_part = None, body = [''title'' \<mapsto> ''A'', ''category'' \<mapsto> ''B'']\<rparr>"

definition ready :: state where
  "ready = on_open startup"

definition one_upload :: state where
  "one_upload = run lit_nan startup [Open, PostPdfs env1 rq_min]"

definition three_events :: "event list" where
  "three_events = [Open, PostPdfs env1 rq_min, PostPdfs env2 rq_15, PostPdfs env3 rq_min]"

definition three_uploads :: state where
  "three_uploads = run lit_nan startup three_events"

definition env_fail :: env where
  "env_fail = env2\<lparr>io_errors := {GridDelete}\<rparr>"

definition env_lookup_fails :: env where
  "env_lookup_fails = env2\<lparr>io_errors := {CatFindOne}\<rparr>"

definition env_write_fails :: env where
  "env_write_fails = env1\<lparr>io_errors := {GridWrite}\<rparr>"

definition doc1 :: pdf where
  "doc1 = \<lparr>doc_id = OID ''00000000000000000000d001'', title = Some ''A'', author = ''Unknown'',
       price = Fin 0, category = Some ''B'', description = None,
       fileId = OID ''00000000000000000000f001'', fileName = ''a.pdf'', createdAt = 1000,
       locked = False\<rparr>"

definition restarted :: state where
  "restarted = one_upload\<lparr>gridfsBucket := None\<rparr>"

definition big_part :: file_part where
  "big_part = \<lparr>part_name = ''big.pdf'', part_type = ''application/pdf'',
     part_data = [replicate 261120 0x25, [0x25]]\<rparr>"

section \<open>Properties of the operations\<close>

subsection \<open>States and replies\<close>

lemma pdfs_console_log [simp]: "pdfs (console_log l s) = pdfs s"
  and uploads_console_log [simp]: "uploads (console_log l s) = uploads s"
  and bucket_console_log [simp]: "gridfsBucket (console_log l s) = gridfsBucket s"
  and console_console_log [simp]: "console (console_log l s) = console s @ [l]"
  by (simp_all add: console_log_def)

lemma status_reply [simp]: "status (reply c p) = c"
  and payload_reply [simp]: "payload (reply c p) = p"
  by (simp_all add: reply_def)

lemma reply_eq_iff [simp]: "reply c p = reply c' p' \<longleftrightarrow> c = c' \<and> p = p'"
  by (simp add: reply_def)

lemma stored_fields [simp]:
  "pdfs (stored e b f s) = pdfs s"
  "gridfsBucket (stored e b f s) = gridfsBucket s"
  "console (stored e b f s) = console s @ [ReceivedUpload, FileUploaded (fresh_file_id e)]"
  "uploads (stored e b f s) = (uploads s)(fresh_file_id e \<mapsto>
             \<lparr>filename = storage_name e, contentType = mimetype f,
              chunks = slice (chunkSizeBytes b) (buffer f)\<rparr>)"
  by (simp_all add: stored_def console_log_def)

lemma pdfs_on_open [simp]: "pdfs (on_open s) = pdfs s"
  by (simp add: on_open_def)

lemma pdfs_error_handler [simp]: "pdfs (snd (error_handler x s)) = pdfs s"
  and status_error_handler [simp]: "status (fst (error_handler x s)) = 500"
  by (simp_all add: error_handler_def)

lemma status_upload_failure [simp]: "status (fst (upload_failure x s)) = 500"
  by (simp add: upload_failure_def)

lemma pdfs_upload_failure [simp]: "pdfs (snd (upload_failure x s)) = pdfs s"
  by (simp add: upload_failure_def)

subsection \<open>Numbers\<close>

lemma or_num_NaN [simp]: "or_num NaN b = b"
  by (simp add: or_num_def truthy_num_def)

lemma or_num_zero [simp]: "or_num (Fin 0) (Fin 0) = Fin 0"
  by (simp add: or_num_def truthy_num_def)

lemma or_num_number: "or_num n (Fin 0) \<noteq> NaN"
  by (cases n) (simp_all add: or_num_def truthy_num_def)

lemma or_num_not_negative:
  assumes "\<not> js_gt (Fin 0) n"
  shows "\<not> js_gt (Fin 0) (or_num n (Fin 0))"
  using assms by (cases n) (simp_all add: or_num_def truthy_num_def)

lemma or_num_negative:
  assumes "js_gt (Fin 0) n"
  shows "or_num n (Fin 0) = n"
  using assms by (cases n) (auto simp: or_num_def truthy_num_def)

lemma Number_undefined [simp]: "Number lit None = NaN"
  by (simp add: Number_def)

lemma Number_0: "Number lit (Some ''0'') = Fin 0"
  by (simp add: Number_def trim_def is_space_def int_literal_def digit_def)

lemma Number_15: "Number lit (Some ''15'') = Fin 15"
  by (simp add: Number_def trim_def is_space_def int_literal_def digit_def)

lemma Number_neg5: "Number lit (Some ''-5'') = Fin (- 5)"
  by (simp add: Number_def trim_def is_space_def int_literal_def digit_def)

subsection \<open>Chunks\<close>

lemma slice_Nil [simp]: "slice n [] = []"
  by (simp add: slice.simps)

lemma slice_zero [simp]: "slice 0 xs = []"
  by (simp add: slice.simps)

lemma slice_short: "0 < n \<Longrightarrow> xs \<noteq> [] \<Longrightarrow> length xs \<le> n \<Longrightarrow> slice n xs = [xs]"
  by (subst slice.simps) simp

lemma concat_slice: "0 < n \<Longrightarrow> concat (slice n xs) = xs"
proof (induction n xs rule: slice.induct)
  case (1 n xs)
  show ?case
  proof (cases "xs = []")
    case True
    then show ?thesis by simp
  next
    case False
    with 1 show ?thesis
      by (subst slice.simps) simp
  qed
qed

lemma length_slice: "c \<in> set (slice n xs) \<Longrightarrow> c \<noteq> [] \<and> length c \<le> n"
proof (induction n xs rule: slice.induct)
  case (1 n xs)
  show ?case
  proof (cases "n = 0 \<or> xs = []")
    case True
    with 1(2) show ?thesis by auto
  next
    case False
    from 1(2) have "c \<in> set (take n xs # slice n (drop n xs))"
      by (subst (asm) slice.simps) (simp add: False)
    with 1(1) False show ?thesis
      by auto
  qed
qed

subsection \<open>The operations of the libraries\<close>

lemma upload_single_None [simp]: "upload_single None = Inr None"
  by (simp add: upload_single_def)

lemma upload_single_Some:
  assumes "upload_single fp = Inr (Some f)"
  obtains p where "fp = Some p" and "f = memoryStorage p"
    and "length (concat (part_data p)) \<le> fileSize"
proof (cases fp)
  case None
  with assms show ?thesis by simp
next
  case (Some p)
  with assms have "f = memoryStorage p \<and> length (concat (part_data p)) \<le> fileSize"
    by (simp add: upload_single_def split: if_splits)
  with Some that show ?thesis by blast
qed

lemma upload_end_eq:
  "upload_end e b name ctype ws s =
     (if GridWrite \<in> io_errors e then Inl StorageFailure
      else if uploads s (fresh_file_id e) \<noteq> None then Inl (DuplicateKey (fresh_file_id e))
      else Inr (s\<lparr>uploads := (uploads s)(fresh_file_id e \<mapsto>
             \<lparr>filename = name, contentType = ctype,
              chunks = slice (chunkSizeBytes b) (concat ws)\<rparr>)\<rparr>))"
  by (simp add: upload_end_def)

lemma bucket_delete_eq:
  "bucket_delete e s i =
     (if GridDelete \<in> io_errors e then Inl StorageFailure
      else if uploads s i = None then Inl (FileNotFound i)
      else Inr (s\<lparr>uploads := (uploads s)(i := None)\<rparr>))"
  by (simp add: bucket_delete_def split: option.splits)

lemma save_eq:
  "save e d s =
     (if validate_doc d \<noteq> [] then Inl (ValidationError (validate_doc d))
      else if CatSave \<in> io_errors e then Inl ConnectionFailure
      else if doc_id d \<in> set (map doc_id (pdfs s)) then Inl (DuplicateKey (doc_id d))
      else Inr (d, s\<lparr>pdfs := pdfs s @ [d]\<rparr>))"
  by (cases "validate_doc d") (simp_all add: save_def)

lemma new_Pdf_fields:
  "price (new_Pdf lit e b f i) = or_num (Number lit (b ''price'')) (Fin 0)"
  "locked (new_Pdf lit e b f i) = js_gt (price (new_Pdf lit e b f i)) (Fin 0)"
  "author (new_Pdf lit e b f i) = or_str (b ''author'') ''Unknown''"
  "title (new_Pdf lit e b f i) = b ''title''"
  "category (new_Pdf lit e b f i) = b ''category''"
  "doc_id (new_Pdf lit e b f i) = fresh_doc_id e"
  "fileId (new_Pdf lit e b f i) = i"
  "createdAt (new_Pdf lit e b f i) = now e"
  by (simp_all add: new_Pdf_def)

lemma validate_doc_new_Pdf:
  "validate_doc (new_Pdf lit e b f i) =
     (if missing (b ''title'') then [''title''] else []) @
     (if missing (b ''category'') then [''category''] else [])"
  by (simp add: validate_doc_def new_Pdf_fields)

lemma validate_doc_missing:
  assumes "missing (b ''title'') \<or> missing (b ''category'')"
  shows "validate_doc (new_Pdf lit e b f i) \<noteq> []"
  using assms by (auto simp: validate_doc_new_Pdf)

lemma findById_Some:
  assumes "findById e s i = Inr (Some d)"
  shows "ObjectId i = Some (doc_id d)" and "CatFindOne \<notin> io_errors e" and "d \<in> set (pdfs s)"
proof -
  from assms obtain k where k: "ObjectId i = Some k"
    by (cases "ObjectId i") (simp_all add: findById_def)
  with assms have c: "CatFindOne \<notin> io_errors e" and f: "find (\<lambda>d. doc_id d = k) (pdfs s) = Some d"
    by (simp_all add: findById_def split: if_splits)
  from f have "doc_id d = k" and "d \<in> set (pdfs s)"
    by (auto simp: find_Some_iff)
  with k c show "ObjectId i = Some (doc_id d)" and "CatFindOne \<notin> io_errors e" and "d \<in> set (pdfs s)"
    by simp_all
qed

lemma findById_absent:
  assumes "ObjectId i = Some k" and "CatFindOne \<notin> io_errors e"
    and "k \<notin> set (map doc_id (pdfs s))"
  shows "findById e s i = Inr None"
proof -
  from assms(3) have "find (\<lambda>d. doc_id d = k) (pdfs s) = None"
    by (auto simp: find_None_iff)
  with assms(1,2) show ?thesis
    by (simp add: findById_def)
qed

lemma set_delete_first: "set (delete_first k ds) \<subseteq> set ds"
  by (induction ds) auto

lemma delete_first_absent:
  "distinct (map doc_id ds) \<Longrightarrow> k \<notin> set (map doc_id (delete_first k ds))"
  by (induction ds) auto

lemma distinct_delete_first:
  "distinct (map doc_id ds) \<Longrightarrow> distinct (map doc_id (delete_first k ds))"
proof (induction ds)
  case Nil
  then show ?case by simp
next
  case (Cons d ds)
  then show ?case
    using set_delete_first [of k ds] by auto
qed

subsection \<open>The upload route\<close>

lemma post_pdfs_refused:
  assumes "upload_single (upload_part rq) = Inl x"
  shows "post_pdfs lit e s rq = error_handler x s"
  using assms by (simp add: post_pdfs_def)

lemma post_pdfs_no_file:
  assumes "upload_single (upload_part rq) = Inr None"
  shows "post_pdfs lit e s rq =
     (reply 400 (ErrorJson ''No file uploaded'' None), console_log ReceivedUpload s)"
  using assms by (simp add: post_pdfs_def Let_def)

lemma post_pdfs_not_ready:
  assumes "upload_single (upload_part rq) = Inr (Some f)" and "gridfsBucket s = None"
  shows "post_pdfs lit e s rq =
     (reply 503 (ErrorJson ''Database/GridFS not ready'' None), console_log ReceivedUpload s)"
  using assms by (simp add: post_pdfs_def Let_def)

lemma post_pdfs_ready:
  assumes "upload_single (upload_part rq) = Inr (Some f)" and "gridfsBucket s = Some b"
  shows "post_pdfs lit e s rq =
     (let d = new_Pdf lit e (body rq) f (fresh_file_id e) in
      if GridWrite \<in> io_errors e then upload_failure StorageFailure (console_log ReceivedUpload s)
      else if uploads s (fresh_file_id e) \<noteq> None
        then upload_failure (DuplicateKey (fresh_file_id e)) (console_log ReceivedUpload s)
      else if validate_doc d \<noteq> []
        then upload_failure (ValidationError (validate_doc d)) (stored e b f s)
      else if CatSave \<in> io_errors e then upload_failure ConnectionFailure (stored e b f s)
      else if doc_id d \<in> set (map doc_id (pdfs s))
        then upload_failure (DuplicateKey (doc_id d)) (stored e b f s)
      else (reply 201 (PdfJson d),
            console_log (MetadataSaved (title d)) ((stored e b f s)\<lparr>pdfs := pdfs s @ [d]\<rparr>)))"
  using assms
  by (simp add: post_pdfs_def Let_def upload_end_eq save_eq stream_writes_def stored_def)

lemma post_pdfs_ready_status:
  assumes "upload_single (upload_part rq) = Inr (Some f)" and "gridfsBucket s = Some b"
  shows "status (fst (post_pdfs lit e s rq)) =
     (if GridWrite \<notin> io_errors e \<and> uploads s (fresh_file_id e) = None \<and>
         validate_doc (new_Pdf lit e (body rq) f (fresh_file_id e)) = [] \<and>
         CatSave \<notin> io_errors e \<and> fresh_doc_id e \<notin> set (map doc_id (pdfs s))
      then 201 else 500)"
  unfolding post_pdfs_ready [OF assms]
  by (simp add: Let_def new_Pdf_fields)

lemma post_pdfs_ready_ok:
  assumes "upload_single (upload_part rq) = Inr (Some f)" and "gridfsBucket s = Some b"
    and "GridWrite \<notin> io_errors e" and "uploads s (fresh_file_id e) = None"
    and "validate_doc (new_Pdf lit e (body rq) f (fresh_file_id e)) = []"
    and "CatSave \<notin> io_errors e" and "fresh_doc_id e \<notin> set (map doc_id (pdfs s))"
  shows "post_pdfs lit e s rq =
      (reply 201 (PdfJson (new_Pdf lit e (body rq) f (fresh_file_id e))),
       console_log (MetadataSaved (body rq ''title''))
         ((stored e b f s)\<lparr>pdfs := pdfs s @ [new_Pdf lit e (body rq) f (fresh_file_id e)]\<rparr>))"
  unfolding post_pdfs_ready [OF assms(1,2)]
  using assms(3-) by (simp add: Let_def new_Pdf_fields)

lemma post_pdfs_ready_pdfs:
  assumes "upload_single (upload_part rq) = Inr (Some f)" and "gridfsBucket s = Some b"
  shows "pdfs (snd (post_pdfs lit e s rq)) =
     (if status (fst (post_pdfs lit e s rq)) = 201
      then pdfs s @ [new_Pdf lit e (body rq) f (fresh_file_id e)] else pdfs s)"
  unfolding post_pdfs_ready [OF assms]
  by (simp add: Let_def)

lemma post_pdfs_201:
  assumes "status (fst (post_pdfs lit e s rq)) = 201"
  obtains f b where "upload_single (upload_part rq) = Inr (Some f)" and "gridfsBucket s = Some b"
    and "post_pdfs lit e s rq =
      (reply 201 (PdfJson (new_Pdf lit e (body rq) f (fresh_file_id e))),
       console_log (MetadataSaved (body rq ''title''))
         ((stored e b f s)\<lparr>pdfs := pdfs s @ [new_Pdf lit e (body rq) f (fresh_file_id e)]\<rparr>))"
    and "validate_doc (new_Pdf lit e (body rq) f (fresh_file_id e)) = []"
    and "fresh_doc_id e \<notin> set (map doc_id (pdfs s))"
proof (cases "upload_single (upload_part rq)")
  case (Inl x)
  with assms show ?thesis
    by (simp add: post_pdfs_refused error_handler_def)
next
  case (Inr fo)
  show ?thesis
  proof (cases fo)
    case None
    with Inr assms show ?thesis
      by (simp add: post_pdfs_no_file)
  next
    case (Some f)
    note f = Inr [unfolded Some]
    show ?thesis
    proof (cases "gridfsBucket s")
      case None
      with f assms show ?thesis
        by (simp add: post_pdfs_not_ready)
    next
      case (Some b)
      let ?ok = "GridWrite \<notin> io_errors e \<and> uploads s (fresh_file_id e) = None \<and>
         validate_doc (new_Pdf lit e (body rq) f (fresh_file_id e)) = [] \<and>
         CatSave \<notin> io_errors e \<and> fresh_doc_id e \<notin> set (map doc_id (pdfs s))"
      have ok: ?ok
      proof (rule ccontr)
        assume "\<not> ?ok"
        then have "status (fst (post_pdfs lit e s rq)) = 500"
          unfolding post_pdfs_ready_status [OF f Some] by simp
        with assms show False by simp
      qed
      then have "post_pdfs lit e s rq =
        (reply 201 (PdfJson (new_Pdf lit e (body rq) f (fresh_file_id e))),
         console_log (MetadataSaved (body rq ''title''))
           ((stored e b f s)\<lparr>pdfs := pdfs s @ [new_Pdf lit e (body rq) f (fresh_file_id e)]\<rparr>))"
        using post_pdfs_ready_ok [OF f Some] by blast
      with f Some ok that show ?thesis
        by blast
    qed
  qed
qed

lemma post_pdfs_not_201:
  assumes "status (fst (post_pdfs lit e s rq)) \<noteq> 201"
  shows "pdfs (snd (post_pdfs lit e s rq)) = pdfs s"
proof (cases "upload_single (upload_part rq)")
  case (Inl x)
  then show ?thesis
    by (simp add: post_pdfs_refused)
next
  case (Inr fo)
  show ?thesis
  proof (cases fo)
    case None
    with Inr show ?thesis
      by (simp add: post_pdfs_no_file)
  next
    case (Some f)
    note f = Inr [unfolded Some]
    show ?thesis
    proof (cases "gridfsBucket s")
      case None
      with f show ?thesis
        by (simp add: post_pdfs_not_ready)
    next
      case (Some b)
      with f assms show ?thesis
        by (simp add: post_pdfs_ready_pdfs)
    qed
  qed
qed

lemma pdfs_post_pdfs:
  "pdfs (snd (post_pdfs lit e s rq)) = pdfs s \<or>
   (\<exists>f. pdfs (snd (post_pdfs lit e s rq)) = pdfs s @ [new_Pdf lit e (body rq) f (fresh_file_id e)] \<and>
        fresh_doc_id e \<notin> set (map doc_id (pdfs s)))"
proof (cases "status (fst (post_pdfs lit e s rq)) = 201")
  case True
  then obtain f b where
    run: "post_pdfs lit e s rq =
      (reply 201 (PdfJson (new_Pdf lit e (body rq) f (fresh_file_id e))),
       console_log (MetadataSaved (body rq ''title''))
         ((stored e b f s)\<lparr>pdfs := pdfs s @ [new_Pdf lit e (body rq) f (fresh_file_id e)]\<rparr>))"
    and new: "fresh_doc_id e \<notin> set (map doc_id (pdfs s))"
    by (rule post_pdfs_201)
  have "pdfs (snd (post_pdfs lit e s rq)) = pdfs s @ [new_Pdf lit e (body rq) f (fresh_file_id e)]"
    by (simp add: run)
  with new show ?thesis
    by (intro disjI2 exI [of _ f] conjI)
next
  case False
  then have "pdfs (snd (post_pdfs lit e s rq)) = pdfs s"
    by (rule post_pdfs_not_201)
  then show ?thesis
    by (rule disjI1)
qed

lemma post_pdfs_invalid:
  assumes "upload_single (upload_part rq) = Inr (Some f)" and "gridfsBucket s = Some b"
    and "missing (body rq ''title'') \<or> missing (body rq ''category'')"
  shows "post_pdfs lit e s rq =
     (if GridWrite \<in> io_errors e then upload_failure StorageFailure (console_log ReceivedUpload s)
      else if uploads s (fresh_file_id e) \<noteq> None
        then upload_failure (DuplicateKey (fresh_file_id e)) (console_log ReceivedUpload s)
      else upload_failure
             (ValidationError (validate_doc (new_Pdf lit e (body rq) f (fresh_file_id e))))
             (stored e b f s))"
  unfolding post_pdfs_ready [OF assms(1,2)]
  using validate_doc_missing [OF assms(3), of lit e f "fresh_file_id e"]
  by (simp add: Let_def)

lemma post_pdfs_invalid_unchanged:
  assumes "missing (body rq ''title'') \<or> missing (body rq ''category'')"
  shows "pdfs (snd (post_pdfs lit e s rq)) = pdfs s \<and> status (fst (post_pdfs lit e s rq)) \<noteq> 201"
proof (cases "upload_single (upload_part rq)")
  case (Inl x)
  then show ?thesis
    by (simp add: post_pdfs_refused)
next
  case (Inr fo)
  show ?thesis
  proof (cases fo)
    case None
    with Inr show ?thesis
      by (simp add: post_pdfs_no_file)
  next
    case (Some f)
    note f = Inr [unfolded Some]
    show ?thesis
    proof (cases "gridfsBucket s")
      case None
      with f show ?thesis
        by (simp add: post_pdfs_not_ready)
    next
      case (Some b)
      show ?thesis
        unfolding post_pdfs_invalid [OF f Some assms]
        by simp
    qed
  qed
qed

subsection \<open>The retrieval and deletion routes\<close>

lemma pdfs_get [simp]:
  "snd (get_pdfs e s) = s"
  "snd (get_pdfs_file e s i) = s"
  by (simp_all add: get_pdfs_def get_pdfs_file_def split: sum.splits option.splits)

lemma get_pdfs_file_ready:
  assumes "gridfsBucket s = Some b" and "ObjectId i = Some k"
  shows "get_pdfs_file e s i =
     (if uploads s k = None \<or> GridRead \<in> io_errors e
      then (reply 404 (ErrorJson ''Document content not found'' None), s)
      else (reply 200 (PdfStream (concat (chunks (the (uploads s k))))), s))"
  using assms
  by (simp add: get_pdfs_file_def openDownloadStream_def split: option.splits)

lemma get_pdfs_file_catalog:
  "fst (get_pdfs_file e (s\<lparr>pdfs := c\<rparr>) i) = fst (get_pdfs_file e s i)"
  by (simp add: get_pdfs_file_def openDownloadStream_def split: option.splits)

lemma file_cleanup_fields [simp]:
  "pdfs (file_cleanup e s d) = pdfs s"
  "gridfsBucket (file_cleanup e s d) = gridfsBucket s"
  by (simp_all add: file_cleanup_def bucket_delete_def split: option.splits)

lemma opened_fields [simp]:
  "pdfs (opened s) = pdfs s"
  "uploads (opened s) = uploads s"
  "gridfsBucket (opened s) \<noteq> None"
  by (simp_all add: opened_def on_open_def console_log_def split: option.splits)

lemma opened_ready:
  assumes "gridfsBucket s \<noteq> None"
  shows "opened s = s"
proof -
  from assms obtain b where "gridfsBucket s = Some b"
    by (cases "gridfsBucket s") simp_all
  then show ?thesis
    by (simp add: opened_def)
qed

lemma file_cleanup_failed:
  assumes "gridfsBucket s \<noteq> None" and "bucket_delete e s (fileId d) = Inl x"
  shows "file_cleanup e s d = console_log (CleanupWarning x) s"
proof -
  from assms(1) obtain b where "gridfsBucket s = Some b"
    by (cases "gridfsBucket s") simp_all
  with assms(2) show ?thesis
    by (simp add: file_cleanup_def)
qed

lemma file_cleanup_done:
  assumes "gridfsBucket s \<noteq> None" and "bucket_delete e s (fileId d) = Inr s1"
  shows "uploads (file_cleanup e s d) = (uploads s)(fileId d := None)"
    and "console (file_cleanup e s d) = console s"
proof -
  from assms(2) have ok: "GridDelete \<notin> io_errors e" "uploads s (fileId d) \<noteq> None"
    unfolding bucket_delete_eq by (simp_all split: if_splits)
  then have "bucket_delete e s (fileId d) = Inr (s\<lparr>uploads := (uploads s)(fileId d := None)\<rparr>)"
    unfolding bucket_delete_eq by simp
  moreover from assms(1) obtain b where "gridfsBucket s = Some b"
    by (cases "gridfsBucket s") simp_all
  ultimately have "file_cleanup e s d = s\<lparr>uploads := (uploads s)(fileId d := None)\<rparr>"
    by (simp add: file_cleanup_def)
  then show "uploads (file_cleanup e s d) = (uploads s)(fileId d := None)"
    and "console (file_cleanup e s d) = console s"
    by simp_all
qed

lemma delete_pdfs_absent:
  assumes "findById e s i = Inr None"
  shows "delete_pdfs e s i = (reply 404 (ErrorJson ''PDF not found'' None), s)"
  using assms by (simp add: delete_pdfs_def)

lemma delete_pdfs_found:
  assumes "findById e s i = Inr (Some d)" and "CatDelete \<notin> io_errors e"
  shows "delete_pdfs e s i =
     (reply 200 (MessageJson ''PDF deleted successfully''),
      (file_cleanup e (opened s) d)\<lparr>pdfs := delete_first (doc_id d) (pdfs s)\<rparr>)"
  using assms findById_Some(1) [OF assms(1)]
  by (simp add: delete_pdfs_def findByIdAndDelete_def Let_def)

lemma status_delete_pdfs: "status (fst (delete_pdfs e s i)) \<in> {200, 404, 500}"
  by (simp add: delete_pdfs_def Let_def split: sum.splits option.splits)

lemma pdfs_delete_pdfs: "set (pdfs (snd (delete_pdfs e s i))) \<subseteq> set (pdfs s)"
proof (cases "findById e s i")
  case (Inl x)
  then show ?thesis
    by (simp add: delete_pdfs_def)
next
  case (Inr r)
  show ?thesis
  proof (cases r)
    case None
    with Inr show ?thesis
      by (simp add: delete_pdfs_def)
  next
    case (Some d)
    with Inr show ?thesis
      using set_delete_first [of _ "pdfs s"]
      by (simp add: delete_pdfs_def Let_def findByIdAndDelete_def split: option.splits)
  qed
qed

subsection \<open>Invariants of the collection\<close>

text \<open>
  Every event keeps the identifiers of the stored documents distinct. A property of the
  stored documents that every new document of an allowed upload has is kept by every
  sequence of allowed events: so the stored prices stay numbers, and stay not negative
  when no upload is of a negative price.
\<close>

lemma handle_distinct_ids:
  assumes "distinct (map doc_id (pdfs s))"
  shows "distinct (map doc_id (pdfs (handle lit s ev)))"
proof (cases ev)
  case Open
  with assms show ?thesis by simp
next
  case (PostPdfs e rq)
  from pdfs_post_pdfs [of lit e s rq] show ?thesis
  proof
    assume "pdfs (snd (post_pdfs lit e s rq)) = pdfs s"
    with assms PostPdfs show ?thesis by simp
  next
    assume "\<exists>f. pdfs (snd (post_pdfs lit e s rq)) =
        pdfs s @ [new_Pdf lit e (body rq) f (fresh_file_id e)] \<and>
      fresh_doc_id e \<notin> set (map doc_id (pdfs s))"
    then obtain f where "pdfs (snd (post_pdfs lit e s rq)) =
        pdfs s @ [new_Pdf lit e (body rq) f (fresh_file_id e)]"
      and "fresh_doc_id e \<notin> set (map doc_id (pdfs s))"
      by blast
    with assms PostPdfs show ?thesis
      by (simp add: new_Pdf_fields)
  qed
next
  case (GetPdfs e)
  with assms show ?thesis by simp
next
  case (GetPdfsFile e i)
  with assms show ?thesis by simp
next
  case (DeletePdfs e i)
  show ?thesis
  proof (cases "findById e s i")
    case (Inl x)
    with assms DeletePdfs show ?thesis
      by (simp add: delete_pdfs_def)
  next
    case (Inr r)
    show ?thesis
    proof (cases r)
      case None
      with Inr assms DeletePdfs show ?thesis
        by (simp add: delete_pdfs_def)
    next
      case (Some d)
      with Inr assms DeletePdfs distinct_delete_first [of "pdfs s"] show ?thesis
        by (simp add: delete_pdfs_def Let_def findByIdAndDelete_def split: option.splits)
    qed
  qed
qed

lemma run_distinct_ids:
  assumes "distinct (map doc_id (pdfs s))"
  shows "distinct (map doc_id (pdfs (run lit s evs)))"
  using assms
proof (induction evs arbitrary: s)
  case Nil
  then show ?case by simp
next
  case (Cons ev evs)
  from Cons.prems have "distinct (map doc_id (pdfs (handle lit s ev)))"
    by (rule handle_distinct_ids)
  then have "distinct (map doc_id (pdfs (run lit (handle lit s ev) evs)))"
    by (rule Cons.IH)
  then show ?case
    by simp
qed

lemma handle_pdfs_inv:
  assumes inv: "\<forall>d\<in>set (pdfs s). P d" and q: "Q ev"
    and new: "\<And>e rq f. Q (PostPdfs e rq) \<Longrightarrow> P (new_Pdf lit e (body rq) f (fresh_file_id e))"
  shows "\<forall>d\<in>set (pdfs (handle lit s ev)). P d"
proof (cases ev)
  case Open
  with inv show ?thesis by simp
next
  case (PostPdfs e rq)
  from pdfs_post_pdfs [of lit e s rq] show ?thesis
  proof
    assume "pdfs (snd (post_pdfs lit e s rq)) = pdfs s"
    with inv PostPdfs show ?thesis by simp
  next
    assume "\<exists>f. pdfs (snd (post_pdfs lit e s rq)) =
        pdfs s @ [new_Pdf lit e (body rq) f (fresh_file_id e)] \<and>
      fresh_doc_id e \<notin> set (map doc_id (pdfs s))"
    then obtain f where "pdfs (snd (post_pdfs lit e s rq)) =
      pdfs s @ [new_Pdf lit e (body rq) f (fresh_file_id e)]"
      by blast
    moreover from q PostPdfs have "P (new_Pdf lit e (body rq) f (fresh_file_id e))"
      by (simp add: new)
    ultimately show ?thesis
      using inv PostPdfs by simp
  qed
next
  case (GetPdfs e)
  with inv show ?thesis by simp
next
  case (GetPdfsFile e i)
  with inv show ?thesis by simp
next
  case (DeletePdfs e i)
  with inv pdfs_delete_pdfs [of e s i] show ?thesis
    by auto
qed

lemma run_pdfs_inv:
  assumes "\<forall>d\<in>set (pdfs s). P d" and "\<forall>ev\<in>set evs. Q ev"
    and new: "\<And>e rq f. Q (PostPdfs e rq) \<Longrightarrow> P (new_Pdf lit e (body rq) f (fresh_file_id e))"
  shows "\<forall>d\<in>set (pdfs (run lit s evs)). P d"
  using assms(1,2)
proof (induction evs arbitrary: s)
  case Nil
  then show ?case by simp
next
  case (Cons ev evs)
  from Cons.prems(2) have "Q ev"
    by simp
  with Cons.prems(1) have "\<forall>d\<in>set (pdfs (handle lit s ev)). P d"
    using new by (rule handle_pdfs_inv)
  moreover from Cons.prems(2) have "\<forall>ev\<in>set evs. Q ev"
    by simp
  ultimately have "\<forall>d\<in>set (pdfs (run lit (handle lit s ev) evs)). P d"
    by (rule Cons.IH)
  then show ?case
    by simp
qed

lemma run_price_number:
  assumes "\<forall>d\<in>set (pdfs s). price d \<noteq> NaN"
  shows "\<forall>d\<in>set (pdfs (run lit s evs)). price d \<noteq> NaN"
proof (rule run_pdfs_inv [where Q = "\<lambda>ev. True"])
  show "\<forall>d\<in>set (pdfs s). price d \<noteq> NaN"
    by (rule assms)
  show "\<forall>ev\<in>set evs. True"
    by simp
  show "price (new_Pdf lit e (body rq) f (fresh_file_id e)) \<noteq> NaN" for e rq f
    by (simp add: new_Pdf_fields or_num_number)
qed

lemma run_price_not_negative:
  assumes "\<forall>d\<in>set (pdfs s). \<not> js_gt (Fin 0) (price d)"
    and "\<forall>ev\<in>set evs. \<not> negative_price lit ev"
  shows "\<forall>d\<in>set (pdfs (run lit s evs)). \<not> js_gt (Fin 0) (price d)"
proof (rule run_pdfs_inv [where Q = "\<lambda>ev. \<not> negative_price lit ev"])
  show "\<forall>d\<in>set (pdfs s). \<not> js_gt (Fin 0) (price d)"
    by (rule assms(1))
  show "\<forall>ev\<in>set evs. \<not> negative_price lit ev"
    by (rule assms(2))
  show "\<not> js_gt (Fin 0) (price (new_Pdf lit e (body rq) f (fresh_file_id e)))"
    if "\<not> negative_price lit (PostPdfs e rq)" for e rq f
    using that by (simp add: new_Pdf_fields or_num_not_negative)
qed

subsection \<open>The examples, evaluated\<close>

lemmas eval_defs =
  startup_def on_open_def console_log_def post_pdfs_def upload_single_def memoryStorage_def
  fileSize_def upload_end_def stream_writes_def new_Pdf_def save_def validate_doc_def
  missing_def or_str_def or_num_def truthy_num_def Number_def trim_def is_space_def
  int_literal_def digit_def reply_def upload_failure_def error_handler_def
  env1_def env2_def env3_def one_byte_def rq_min_def rq_15_def rq_neg_def rq_untitled_def
  rq_nofile_def lit_nan_def three_events_def slice_short Let_def

lemma ready_fields [simp]:
  "gridfsBucket ready = Some \<lparr>bucketName = ''uploads'', chunkSizeBytes = 261120\<rparr>"
  "uploads ready = Map.empty"
  "pdfs ready = []"
  "console ready = [GridFSReady]"
  by (simp_all add: ready_def on_open_def startup_def console_log_def)

lemma upload_single_one_byte [simp]:
  "upload_single (Some one_byte) = Inr (Some (memoryStorage one_byte))"
  by (simp add: upload_single_def one_byte_def fileSize_def)

lemma post_rq_min: "status (fst (post_pdfs lit_nan env1 ready rq_min)) = 201"
  by (simp add: post_pdfs_ready_status [where f = "memoryStorage one_byte"] rq_min_def
      validate_doc_new_Pdf missing_def env1_def)

lemma post_rq_15: "status (fst (post_pdfs lit_nan env1 ready rq_15)) = 201"
  by (simp add: post_pdfs_ready_status [where f = "memoryStorage one_byte"] rq_15_def
      validate_doc_new_Pdf missing_def env1_def)

lemma post_rq_neg: "status (fst (post_pdfs lit_nan env1 ready rq_neg)) = 201"
  by (simp add: post_pdfs_ready_status [where f = "memoryStorage one_byte"] rq_neg_def
      validate_doc_new_Pdf missing_def env1_def)

lemma one_upload_fields:
  "pdfs one_upload = [doc1]"
  "console one_upload =
     [GridFSReady, ReceivedUpload, FileUploaded (OID ''00000000000000000000f001''),
      MetadataSaved (Some ''A'')]"
  by (simp_all add: one_upload_def doc1_def eval_defs)

lemma uploads_one_upload:
  "uploads one_upload (OID ''00000000000000000000f001'') =
     Some \<lparr>filename = ''5d41402abc4b2a76b9719d911017c592.pdf'', contentType = ''application/pdf'',
       chunks = [[0x25]]\<rparr>"
  "uploads one_upload (OID ''00000000000000000000d001'') = None"
  by (simp_all add: one_upload_def eval_defs)

lemma bucket_one_upload:
  "gridfsBucket one_upload = Some \<lparr>bucketName = ''uploads'', chunkSizeBytes = 261120\<rparr>"
  by (simp add: one_upload_def eval_defs)

lemma pdfs_three_uploads:
  "pdfs three_uploads =
     [\<lparr>doc_id = OID ''00000000000000000000d001'', title = Some ''A'', author = ''Unknown'',
       price = Fin 0, category = Some ''B'', description = None,
       fileId = OID ''00000000000000000000f001'', fileName = ''a.pdf'', createdAt = 1000,
       locked = False\<rparr>,
      \<lparr>doc_id = OID ''00000000000000000000d002'', title = Some ''A'', author = ''Unknown'',
       price = Fin 15, category = Some ''B'', description = None,
       fileId = OID ''00000000000000000000f002'', fileName = ''a.pdf'', createdAt = 2000,
       locked = True\<rparr>,
      \<lparr>doc_id = OID ''00000000000000000000d003'', title = Some ''A'', author = ''Unknown'',
       price = Fin 0, category = Some ''B'', description = None,
       fileId = OID ''00000000000000000000f003'', fileName = ''a.pdf'', createdAt = 3000,
       locked = False\<rparr>]"
  by (simp add: three_uploads_def eval_defs)

lemma ObjectId_examples:
  "ObjectId ''00000000000000000000f001'' = Some (OID ''00000000000000000000f001'')"
  "ObjectId ''00000000000000000000d001'' = Some (OID ''00000000000000000000d001'')"
  by (simp_all add: ObjectId_def hex_lower_def)

lemma findById_doc1:
  "findById env_fail one_upload ''00000000000000000000d001'' = Inr (Some doc1)"
  "findById env2 one_upload ''00000000000000000000d001'' = Inr (Some doc1)"
  by (simp_all add: findById_def ObjectId_def hex_lower_def one_upload_fields
      env_fail_def env2_def doc1_def)

lemma findById_none:
  "findById env_fail one_upload ''00000000000000000000f001'' = Inr None"
  "findById env2 one_upload ''00000000000000000000f001'' = Inr None"
  by (simp_all add: findById_def ObjectId_def hex_lower_def one_upload_fields
      env_fail_def env2_def doc1_def)

lemma restarted_fields [simp]:
  "gridfsBucket restarted = None"
  "pdfs restarted = [doc1]"
  by (simp_all add: restarted_def one_upload_fields)

lemma findById_restarted:
  "findById env2 restarted ''00000000000000000000d001'' = Inr (Some doc1)"
  by (simp add: findById_def ObjectId_examples env2_def doc1_def)

text \<open>
  A deletion that arrives before the \<^verbatim>\<open>open\<close> event and whose lookup returns the document:
  the file is removed from the bucket with the document, and the handle is set.
\<close>

lemma delete_restarted:
  "fst (delete_pdfs env2 restarted ''00000000000000000000d001'') =
     reply 200 (MessageJson ''PDF deleted successfully'')"
  "pdfs (snd (delete_pdfs env2 restarted ''00000000000000000000d001'')) = []"
  "uploads (snd (delete_pdfs env2 restarted ''00000000000000000000d001''))
     (OID ''00000000000000000000f001'') = None"
  "gridfsBucket (snd (delete_pdfs env2 restarted ''00000000000000000000d001'')) \<noteq> None"
proof -
  have c: "CatDelete \<notin> io_errors env2"
    by (simp add: env2_def)
  note run = delete_pdfs_found [OF findById_restarted c]
  show "fst (delete_pdfs env2 restarted ''00000000000000000000d001'') =
     reply 200 (MessageJson ''PDF deleted successfully'')"
    by (simp add: run)
  show "pdfs (snd (delete_pdfs env2 restarted ''00000000000000000000d001'')) = []"
    by (simp add: run doc1_def)
  have "uploads (file_cleanup env2 (opened restarted) doc1) (OID ''00000000000000000000f001'') = None"
    by (simp add: file_cleanup_def opened_def on_open_def console_log_def bucket_delete_def
        doc1_def env2_def restarted_def uploads_one_upload)
  then show "uploads (snd (delete_pdfs env2 restarted ''00000000000000000000d001''))
     (OID ''00000000000000000000f001'') = None"
    by (simp add: run)
  show "gridfsBucket (snd (delete_pdfs env2 restarted ''00000000000000000000d001'')) \<noteq> None"
    by (simp add: run)
qed

section \<open>The claims\<close>

subsection \<open>C1\<close>

text \<open>
  Claim C1. When \<^verbatim>\<open>POST /api/pdfs\<close> answers \<open>201\<close>, the document it returns is the one it
  stored, and its derived fields follow from the submitted ones: without an \<open>author\<close>
  field the author is \<open>Unknown\<close>; the price is \<^verbatim>\<open>Number(price) || 0\<close>, so \<open>0\<close> when the
  field is absent or reads as \<open>NaN\<close>; and \<open>locked\<close> is true exactly when that price is
  greater than \<open>0\<close> (true for \<open>15\<close>, false for \<open>0\<close> and for an absent price).
\<close>

theorem created_record_defaults:
  assumes "status (fst (post_pdfs lit e s rq)) = 201"
  shows "\<exists>d. payload (fst (post_pdfs lit e s rq)) = PdfJson d \<and>
           pdfs (snd (post_pdfs lit e s rq)) = pdfs s @ [d] \<and>
           (body rq ''author'' = None \<longrightarrow> author d = ''Unknown'') \<and>
           (body rq ''price'' = None \<longrightarrow> price d = Fin 0 \<and> \<not> locked d) \<and>
           (Number lit (body rq ''price'') = NaN \<longrightarrow> price d = Fin 0 \<and> \<not> locked d) \<and>
           (body rq ''price'' = Some ''0'' \<longrightarrow> price d = Fin 0 \<and> \<not> locked d) \<and>
           (body rq ''price'' = Some ''15'' \<longrightarrow> price d = Fin 15 \<and> locked d) \<and>
           price d = or_num (Number lit (body rq ''price'')) (Fin 0) \<and>
           (locked d \<longleftrightarrow> js_gt (price d) (Fin 0))"
proof -
  from assms obtain f b where
    run: "post_pdfs lit e s rq =
      (reply 201 (PdfJson (new_Pdf lit e (body rq) f (fresh_file_id e))),
       console_log (MetadataSaved (body rq ''title''))
         ((stored e b f s)\<lparr>pdfs := pdfs s @ [new_Pdf lit e (body rq) f (fresh_file_id e)]\<rparr>))"
    by (rule post_pdfs_201)
  let ?d = "new_Pdf lit e (body rq) f (fresh_file_id e)"
  have 1: "payload (fst (post_pdfs lit e s rq)) = PdfJson ?d"
    by (simp add: run)
  have 2: "pdfs (snd (post_pdfs lit e s rq)) = pdfs s @ [?d]"
    by (simp add: run)
  have 3: "body rq ''author'' = None \<longrightarrow> author ?d = ''Unknown''"
    by (simp add: new_Pdf_fields or_str_def)
  have 4: "body rq ''price'' = None \<longrightarrow> price ?d = Fin 0 \<and> \<not> locked ?d"
    by (simp add: new_Pdf_fields)
  have 5: "Number lit (body rq ''price'') = NaN \<longrightarrow> price ?d = Fin 0 \<and> \<not> locked ?d"
    by (simp add: new_Pdf_fields)
  have 6: "body rq ''price'' = Some ''0'' \<longrightarrow> price ?d = Fin 0 \<and> \<not> locked ?d"
    by (simp add: new_Pdf_fields Number_0)
  have 7: "body rq ''price'' = Some ''15'' \<longrightarrow> price ?d = Fin 15 \<and> locked ?d"
    by (simp add: new_Pdf_fields Number_15 or_num_def truthy_num_def)
  have 8: "price ?d = or_num (Number lit (body rq ''price'')) (Fin 0)"
    by (simp add: new_Pdf_fields)
  have 9: "locked ?d \<longleftrightarrow> js_gt (price ?d) (Fin 0)"
    by (simp add: new_Pdf_fields)
  show ?thesis
    by (intro exI [of _ ?d] conjI) (fact 1 2 3 4 5 6 7 8 9)+
qed

theorem created_record_defaults_witness:
  "status (fst (post_pdfs lit_nan env1 ready rq_min)) = 201 \<and>
   (\<exists>d. payload (fst (post_pdfs lit_nan env1 ready rq_min)) = PdfJson d \<and>
        author d = ''Unknown'' \<and> price d = Fin 0 \<and> \<not> locked d) \<and>
   status (fst (post_pdfs lit_nan env1 ready rq_15)) = 201 \<and>
   (\<exists>d. payload (fst (post_pdfs lit_nan env1 ready rq_15)) = PdfJson d \<and>
        price d = Fin 15 \<and> locked d)"
proof -
  have a: "body rq_min ''author'' = None" and p: "body rq_min ''price'' = None"
    by (simp_all add: rq_min_def)
  have q: "body rq_15 ''price'' = Some ''15''"
    by (simp add: rq_15_def)
  from created_record_defaults [OF post_rq_min] a p
  have 1: "\<exists>d. payload (fst (post_pdfs lit_nan env1 ready rq_min)) = PdfJson d \<and>
        author d = ''Unknown'' \<and> price d = Fin 0 \<and> \<not> locked d"
    by metis
  from created_record_defaults [OF post_rq_15] q
  have 2: "\<exists>d. payload (fst (post_pdfs lit_nan env1 ready rq_15)) = PdfJson d \<and>
        price d = Fin 15 \<and> locked d"
    by metis
  from post_rq_min 1 post_rq_15 2 show ?thesis
    by (intro conjI)
qed

subsection \<open>C2\<close>

text \<open>
  Claim C2, as the code has it. No sequence of events makes a stored price \<open>NaN\<close>: the
  prices of a collection that are numbers stay numbers. No sequence of events makes a
  stored price negative unless one of them is an upload whose price field reads as a
  negative number: without such an upload, prices that are not negative stay so. An
  upload that succeeds with a price field that reads as a negative number stores that
  number as the price.
\<close>

theorem stored_price_sign:
  "((\<forall>d\<in>set (pdfs s). price d \<noteq> NaN) \<longrightarrow>
    (\<forall>d\<in>set (pdfs (run lit s evs)). price d \<noteq> NaN)) \<and>
   ((\<forall>d\<in>set (pdfs s). \<not> js_gt (Fin 0) (price d)) \<and>
    (\<forall>ev\<in>set evs. \<not> negative_price lit ev) \<longrightarrow>
    (\<forall>d\<in>set (pdfs (run lit s evs)). \<not> js_gt (Fin 0) (price d))) \<and>
   (status (fst (post_pdfs lit e s rq)) = 201 \<and> negative_price lit (PostPdfs e rq) \<longrightarrow>
    (\<exists>d. pdfs (snd (post_pdfs lit e s rq)) = pdfs s @ [d] \<and>
         price d = Number lit (body rq ''price'')))"
proof (intro conjI impI)
  assume "\<forall>d\<in>set (pdfs s). price d \<noteq> NaN"
  then show "\<forall>d\<in>set (pdfs (run lit s evs)). price d \<noteq> NaN"
    by (rule run_price_number)
next
  assume h: "(\<forall>d\<in>set (pdfs s). \<not> js_gt (Fin 0) (price d)) \<and>
    (\<forall>ev\<in>set evs. \<not> negative_price lit ev)"
  from h [THEN conjunct1] h [THEN conjunct2]
  show "\<forall>d\<in>set (pdfs (run lit s evs)). \<not> js_gt (Fin 0) (price d)"
    by (rule run_price_not_negative)
next
  assume h: "status (fst (post_pdfs lit e s rq)) = 201 \<and> negative_price lit (PostPdfs e rq)"
  then have st: "status (fst (post_pdfs lit e s rq)) = 201"
    and neg: "js_gt (Fin 0) (Number lit (body rq ''price''))"
    by simp_all
  from st obtain f b where
    run: "post_pdfs lit e s rq =
      (reply 201 (PdfJson (new_Pdf lit e (body rq) f (fresh_file_id e))),
       console_log (MetadataSaved (body rq ''title''))
         ((stored e b f s)\<lparr>pdfs := pdfs s @ [new_Pdf lit e (body rq) f (fresh_file_id e)]\<rparr>))"
    by (rule post_pdfs_201)
  let ?d = "new_Pdf lit e (body rq) f (fresh_file_id e)"
  have 1: "pdfs (snd (post_pdfs lit e s rq)) = pdfs s @ [?d]"
    by (simp add: run)
  have 2: "price ?d = Number lit (body rq ''price'')"
    by (simp add: new_Pdf_fields or_num_negative [OF neg])
  show "\<exists>d. pdfs (snd (post_pdfs lit e s rq)) = pdfs s @ [d] \<and>
         price d = Number lit (body rq ''price'')"
    by (intro exI [of _ ?d] conjI) (fact 1 2)+
qed

theorem stored_price_sign_witness:
  "map createdAt (pdfs (run lit_nan startup three_events)) = [1000, 2000, 3000] \<and>
   list_all (\<lambda>d. price d \<noteq> NaN) (pdfs (run lit_nan startup three_events)) \<and>
   list_all (\<lambda>d. \<not> js_gt (Fin 0) (price d)) (pdfs (run lit_nan startup three_events)) \<and>
   status (fst (post_pdfs lit_nan env1 ready rq_neg)) = 201 \<and>
   negative_price lit_nan (PostPdfs env1 rq_neg) \<and>
   (\<exists>d. pdfs (snd (post_pdfs lit_nan env1 ready rq_neg)) = pdfs ready @ [d] \<and>
        price d = Fin (- 5))"
proof -
  have i: "\<forall>d\<in>set (pdfs startup). price d \<noteq> NaN"
    and j: "\<forall>d\<in>set (pdfs startup). \<not> js_gt (Fin 0) (price d)"
    by (simp_all add: startup_def)
  have n: "\<forall>ev\<in>set three_events. \<not> negative_price lit_nan ev"
    by (simp add: three_events_def rq_min_def rq_15_def Number_15)
  note t = stored_price_sign [where s = startup and evs = three_events and lit = lit_nan]
  from t [THEN conjunct1, THEN mp, OF i]
  have 1: "list_all (\<lambda>d. price d \<noteq> NaN) (pdfs (run lit_nan startup three_events))"
    by (simp add: list_all_iff)
  from t [THEN conjunct2, THEN conjunct1, THEN mp, OF conjI, OF j n]
  have 2: "list_all (\<lambda>d. \<not> js_gt (Fin 0) (price d)) (pdfs (run lit_nan startup three_events))"
    by (simp add: list_all_iff)
  have 0: "map createdAt (pdfs (run lit_nan startup three_events)) = [1000, 2000, 3000]"
    by (simp add: three_events_def eval_defs)
  have p: "body rq_neg ''price'' = Some ''-5''"
    by (simp add: rq_neg_def)
  then have g: "negative_price lit_nan (PostPdfs env1 rq_neg)"
    by (simp add: Number_neg5)
  note u = stored_price_sign [where s = ready and lit = lit_nan and e = env1 and rq = rq_neg,
      THEN conjunct2, THEN conjunct2, THEN mp, OF conjI, OF post_rq_neg g]
  with p have 3: "\<exists>d. pdfs (snd (post_pdfs lit_nan env1 ready rq_neg)) = pdfs ready @ [d] \<and>
        price d = Fin (- 5)"
    by (simp add: Number_neg5)
  from 0 1 2 post_rq_neg g 3 show ?thesis
    by (intro conjI)
qed

text \<open>
  Claim C2 as stated fails. From the process at start: the connection opens, and one
  upload with the price field \<^verbatim>\<open>-5\<close> stores a document whose price is \<open>-5\<close>.
\<close>

theorem negative_price_stored_counterexample:
  "map price (pdfs (run lit_nan startup [Open, PostPdfs env1 rq_neg])) = [Fin (- 5)] \<and>
   js_gt (Fin 0) (Fin (- 5))"
  by (simp add: eval_defs)

subsection \<open>C3\<close>

text \<open>
  Claim C3, as the code has it. \<^verbatim>\<open>GET /api/pdfs/file/:id\<close> does not look the id up in the
  collection of metadata documents: its response is the same whatever that collection
  holds. With the bucket ready and a well-formed id, the id is taken as the identifier
  of a file of the bucket: the answer is \<open>404\<close> when the bucket has no file of that id,
  and otherwise (when reading does not fail) \<open>200\<close> with the file's chunks in order.
\<close>

theorem retrieval_by_file_id:
  "fst (get_pdfs_file e (s\<lparr>pdfs := c\<rparr>) i) = fst (get_pdfs_file e s i) \<and>
   (\<forall>b k. gridfsBucket s = Some b \<and> ObjectId i = Some k \<and> uploads s k = None \<longrightarrow>
      get_pdfs_file e s i = (reply 404 (ErrorJson ''Document content not found'' None), s)) \<and>
   (\<forall>b k f. gridfsBucket s = Some b \<and> ObjectId i = Some k \<and> uploads s k = Some f \<and>
      GridRead \<notin> io_errors e \<longrightarrow>
      get_pdfs_file e s i = (reply 200 (PdfStream (concat (chunks f))), s))"
proof (intro conjI allI impI)
  show "fst (get_pdfs_file e (s\<lparr>pdfs := c\<rparr>) i) = fst (get_pdfs_file e s i)"
    by (rule get_pdfs_file_catalog)
next
  fix b k
  assume "gridfsBucket s = Some b \<and> ObjectId i = Some k \<and> uploads s k = None"
  then show "get_pdfs_file e s i = (reply 404 (ErrorJson ''Document content not found'' None), s)"
    by (simp add: get_pdfs_file_ready)
next
  fix b k f
  assume "gridfsBucket s = Some b \<and> ObjectId i = Some k \<and> uploads s k = Some f \<and>
      GridRead \<notin> io_errors e"
  then show "get_pdfs_file e s i = (reply 200 (PdfStream (concat (chunks f))), s)"
    by (simp add: get_pdfs_file_ready)
qed

theorem retrieval_by_file_id_witness:
  "gridfsBucket one_upload = Some \<lparr>bucketName = ''uploads'', chunkSizeBytes = 261120\<rparr> \<and>
   ObjectId ''00000000000000000000f001'' = Some (OID ''00000000000000000000f001'') \<and>
   get_pdfs_file env2 one_upload ''00000000000000000000f001'' =
     (reply 200 (PdfStream [0x25]), one_upload) \<and>
   fst (get_pdfs_file env2 (one_upload\<lparr>pdfs := []\<rparr>) ''00000000000000000000f001'') =
     reply 200 (PdfStream [0x25]) \<and>
   uploads one_upload (OID ''00000000000000000000d001'') = None \<and>
   get_pdfs_file env2 one_upload ''00000000000000000000d001'' =
     (reply 404 (ErrorJson ''Document content not found'' None), one_upload)"
proof -
  note b = bucket_one_upload
  note k = ObjectId_examples(1)
  note u = uploads_one_upload(1)
  have r: "GridRead \<notin> io_errors env2"
    by (simp add: env2_def)
  note t = retrieval_by_file_id
    [where e = env2 and s = one_upload and c = "[]" and i = "''00000000000000000000f001''"]
  from t b k u r have 1: "get_pdfs_file env2 one_upload ''00000000000000000000f001'' =
     (reply 200 (PdfStream [0x25]), one_upload)"
    by simp
  from t 1 have 2: "fst (get_pdfs_file env2 (one_upload\<lparr>pdfs := []\<rparr>) ''00000000000000000000f001'') =
     reply 200 (PdfStream [0x25])"
    by simp
  note k' = ObjectId_examples(2)
  note u' = uploads_one_upload(2)
  note t' = retrieval_by_file_id
    [where e = env2 and s = one_upload and c = "[]" and i = "''00000000000000000000d001''"]
  from t' b k' u' have 3: "get_pdfs_file env2 one_upload ''00000000000000000000d001'' =
     (reply 404 (ErrorJson ''Document content not found'' None), one_upload)"
    by simp
  from b k 1 2 u' 3 show ?thesis
    by (intro conjI)
qed

text \<open>
  Claim C3 as stated fails. After one upload, the id of the stored file is the id of no
  metadata document, and the request for it is answered \<open>200\<close> with the file's content,
  not \<open>404\<close>; the id of the metadata document, whose file is in the bucket, is answered
  \<open>404\<close>.
\<close>

theorem retrieval_ignores_catalog_counterexample:
  "findById env2 one_upload ''00000000000000000000f001'' = Inr None \<and>
   fst (get_pdfs_file env2 one_upload ''00000000000000000000f001'') =
     reply 200 (PdfStream [0x25]) \<and>
   findById env2 one_upload ''00000000000000000000d001'' = Inr (Some doc1) \<and>
   uploads one_upload (fileId doc1) \<noteq> None \<and>
   fst (get_pdfs_file env2 one_upload ''00000000000000000000d001'') =
     reply 404 (ErrorJson ''Document content not found'' None)"
proof -
  have 1: "fst (get_pdfs_file env2 one_upload ''00000000000000000000f001'') =
     reply 200 (PdfStream [0x25])"
    by (simp add: get_pdfs_file_ready [OF bucket_one_upload ObjectId_examples(1)]
        uploads_one_upload env2_def)
  have 2: "fst (get_pdfs_file env2 one_upload ''00000000000000000000d001'') =
     reply 404 (ErrorJson ''Document content not found'' None)"
    by (simp add: get_pdfs_file_ready [OF bucket_one_upload ObjectId_examples(2)]
        uploads_one_upload)
  have 3: "uploads one_upload (fileId doc1) \<noteq> None"
    by (simp add: doc1_def uploads_one_upload)
  from findById_none(2) 1 findById_doc1(2) 3 2 show ?thesis
    by (intro conjI)
qed

subsection \<open>C4\<close>

text \<open>
  Claim C4, as the code has it. While the handle \<^verbatim>\<open>gridfsBucket\<close> is not set: an upload
  whose file part the middleware accepted is answered \<open>503\<close>, and so is every retrieval;
  an upload with no file part is answered \<open>400\<close>, the check for the file coming first; a
  deletion is never answered \<open>503\<close>.
\<close>

theorem not_ready_responses:
  assumes "gridfsBucket s = None"
  shows "(\<forall>f. upload_single (upload_part rq) = Inr (Some f) \<longrightarrow>
            post_pdfs lit e s rq =
              (reply 503 (ErrorJson ''Database/GridFS not ready'' None),
               console_log ReceivedUpload s)) \<and>
         (upload_part rq = None \<longrightarrow>
            post_pdfs lit e s rq =
              (reply 400 (ErrorJson ''No file uploaded'' None), console_log ReceivedUpload s)) \<and>
         get_pdfs_file e s i = (reply 503 (ErrorJson ''Stream engine not ready'' None), s) \<and>
         status (fst (delete_pdfs e s i)) \<noteq> 503"
proof (intro conjI allI impI)
  fix f
  assume "upload_single (upload_part rq) = Inr (Some f)"
  then show "post_pdfs lit e s rq =
      (reply 503 (ErrorJson ''Database/GridFS not ready'' None), console_log ReceivedUpload s)"
    using assms by (rule post_pdfs_not_ready)
next
  assume "upload_part rq = None"
  then have "upload_single (upload_part rq) = Inr None"
    by simp
  then show "post_pdfs lit e s rq =
      (reply 400 (ErrorJson ''No file uploaded'' None), console_log ReceivedUpload s)"
    by (rule post_pdfs_no_file)
next
  from assms show "get_pdfs_file e s i = (reply 503 (ErrorJson ''Stream engine not ready'' None), s)"
    by (simp add: get_pdfs_file_def)
next
  from status_delete_pdfs [of e s i] show "status (fst (delete_pdfs e s i)) \<noteq> 503"
    by auto
qed

theorem not_ready_responses_witness:
  "gridfsBucket restarted = None \<and>
   post_pdfs lit_nan env2 restarted rq_min =
     (reply 503 (ErrorJson ''Database/GridFS not ready'' None),
      console_log ReceivedUpload restarted) \<and>
   post_pdfs lit_nan env2 restarted rq_nofile =
     (reply 400 (ErrorJson ''No file uploaded'' None), console_log ReceivedUpload restarted) \<and>
   get_pdfs_file env2 restarted ''00000000000000000000f001'' =
     (reply 503 (ErrorJson ''Stream engine not ready'' None), restarted) \<and>
   status (fst (delete_pdfs env2 restarted ''00000000000000000000d001'')) \<noteq> 503"
proof -
  have n: "gridfsBucket restarted = None"
    by simp
  note t = not_ready_responses [OF n, of rq_min lit_nan env2 "''00000000000000000000f001''"]
  note u = not_ready_responses [OF n, of rq_nofile lit_nan env2 "''00000000000000000000d001''"]
  have f: "upload_single (upload_part rq_min) = Inr (Some (memoryStorage one_byte))"
    by (simp add: rq_min_def)
  have g: "upload_part rq_nofile = None"
    by (simp add: rq_nofile_def)
  from t f have 1: "post_pdfs lit_nan env2 restarted rq_min =
     (reply 503 (ErrorJson ''Database/GridFS not ready'' None),
      console_log ReceivedUpload restarted)"
    by simp
  from u g have 2: "post_pdfs lit_nan env2 restarted rq_nofile =
     (reply 400 (ErrorJson ''No file uploaded'' None), console_log ReceivedUpload restarted)"
    by simp
  from t have 3: "get_pdfs_file env2 restarted ''00000000000000000000f001'' =
     (reply 503 (ErrorJson ''Stream engine not ready'' None), restarted)"
    by simp
  from u have 4: "status (fst (delete_pdfs env2 restarted ''00000000000000000000d001'')) \<noteq> 503"
    by simp
  from n 1 2 3 4 show ?thesis
    by (intro conjI)
qed

text \<open>
  Claim C4 as stated fails. In a process started over a database that holds one upload,
  a request that arrives before the connection's \<^verbatim>\<open>open\<close> event is answered \<open>400\<close> when
  it is an upload with no file part; a deletion is answered \<open>500\<close> when its lookup fails,
  and \<open>200\<close> or \<open>404\<close> when its lookup returns: none of them \<open>503\<close>.
\<close>

theorem delete_before_ready_counterexample:
  "gridfsBucket restarted = None \<and>
   status (fst (post_pdfs lit_nan env2 restarted rq_nofile)) = 400 \<and>
   status (fst (delete_pdfs env2 restarted ''00000000000000000000d001'')) = 200 \<and>
   status (fst (delete_pdfs env2 restarted ''00000000000000000000f001'')) = 404 \<and>
   status (fst (delete_pdfs env_lookup_fails restarted ''00000000000000000000d001'')) = 500"
proof -
  have 1: "status (fst (post_pdfs lit_nan env2 restarted rq_nofile)) = 400"
    by (simp add: post_pdfs_no_file rq_nofile_def)
  have "CatDelete \<notin> io_errors env2"
    by (simp add: env2_def)
  then have 2: "status (fst (delete_pdfs env2 restarted ''00000000000000000000d001'')) = 200"
    by (simp add: delete_pdfs_found [OF findById_restarted])
  have "findById env2 restarted ''00000000000000000000f001'' = Inr None"
    by (simp add: findById_def ObjectId_examples env2_def doc1_def)
  then have 3: "status (fst (delete_pdfs env2 restarted ''00000000000000000000f001'')) = 404"
    by (simp add: delete_pdfs_absent)
  have "findById env_lookup_fails restarted ''00000000000000000000d001'' = Inl ConnectionFailure"
    by (simp add: findById_def ObjectId_examples env_lookup_fails_def)
  then have 4: "status (fst (delete_pdfs env_lookup_fails restarted ''00000000000000000000d001'')) = 500"
    by (simp add: delete_pdfs_def)
  from restarted_fields(1) 1 2 3 4 show ?thesis
    by (intro conjI)
qed

subsection \<open>C5\<close>

text \<open>
  Claim C5. \<^verbatim>\<open>DELETE /api/pdfs/:id\<close>: when the lookup of the id finds no document (the id
  is well formed and the collection has no document of that id), the answer is \<open>404\<close>
  and nothing changes. When it finds one (and the removal from the collection itself
  does not fail), the answer is \<open>200\<close> and the document is removed: no document of that
  id is left, identifiers being unique. This holds whatever becomes of the file: when
  the bucket's deletion of the file fails, the failure is printed as a warning, the
  bucket is left as it was, and the deletion goes on; when it succeeds, the file is gone
  from the bucket.
\<close>

theorem delete_best_effort:
  "(\<forall>k. ObjectId i = Some k \<and> CatFindOne \<notin> io_errors e \<and>
        k \<notin> set (map doc_id (pdfs s)) \<longrightarrow>
      delete_pdfs e s i = (reply 404 (ErrorJson ''PDF not found'' None), s)) \<and>
   (\<forall>d. findById e s i = Inr (Some d) \<and> CatDelete \<notin> io_errors e \<longrightarrow>
      fst (delete_pdfs e s i) = reply 200 (MessageJson ''PDF deleted successfully'') \<and>
      pdfs (snd (delete_pdfs e s i)) = delete_first (doc_id d) (pdfs s) \<and>
      (distinct (map doc_id (pdfs s)) \<longrightarrow>
         doc_id d \<notin> set (map doc_id (pdfs (snd (delete_pdfs e s i))))) \<and>
      (\<forall>x. gridfsBucket s \<noteq> None \<and> bucket_delete e s (fileId d) = Inl x \<longrightarrow>
         console (snd (delete_pdfs e s i)) = console s @ [CleanupWarning x] \<and>
         uploads (snd (delete_pdfs e s i)) = uploads s) \<and>
      (\<forall>s1. gridfsBucket s \<noteq> None \<and> bucket_delete e s (fileId d) = Inr s1 \<longrightarrow>
         console (snd (delete_pdfs e s i)) = console s \<and>
         uploads (snd (delete_pdfs e s i)) = (uploads s)(fileId d := None)))"
proof (intro conjI allI impI)
  fix k
  assume "ObjectId i = Some k \<and> CatFindOne \<notin> io_errors e \<and>
        k \<notin> set (map doc_id (pdfs s))"
  then have "findById e s i = Inr None"
    using findById_absent by simp
  then show "delete_pdfs e s i = (reply 404 (ErrorJson ''PDF not found'' None), s)"
    by (rule delete_pdfs_absent)
next
  fix d
  assume "findById e s i = Inr (Some d) \<and> CatDelete \<notin> io_errors e"
  then have run: "delete_pdfs e s i =
     (reply 200 (MessageJson ''PDF deleted successfully''),
      (file_cleanup e (opened s) d)\<lparr>pdfs := delete_first (doc_id d) (pdfs s)\<rparr>)"
    using delete_pdfs_found by simp
  show "fst (delete_pdfs e s i) = reply 200 (MessageJson ''PDF deleted successfully'')"
    by (simp add: run)
  show del: "pdfs (snd (delete_pdfs e s i)) = delete_first (doc_id d) (pdfs s)"
    by (simp add: run)
  {
    assume "distinct (map doc_id (pdfs s))"
    then show "doc_id d \<notin> set (map doc_id (pdfs (snd (delete_pdfs e s i))))"
      unfolding del by (rule delete_first_absent)
  }
  {
    fix x
    assume h: "gridfsBucket s \<noteq> None \<and> bucket_delete e s (fileId d) = Inl x"
    then have c: "file_cleanup e s d = console_log (CleanupWarning x) s"
      using file_cleanup_failed by simp
    from h have o: "opened s = s"
      by (simp add: opened_ready)
    show "console (snd (delete_pdfs e s i)) = console s @ [CleanupWarning x]"
      by (simp add: run o c)
    show "uploads (snd (delete_pdfs e s i)) = uploads s"
      by (simp add: run o c)
  }
  {
    fix s1
    assume h: "gridfsBucket s \<noteq> None \<and> bucket_delete e s (fileId d) = Inr s1"
    then have b: "gridfsBucket s \<noteq> None" and r: "bucket_delete e s (fileId d) = Inr s1"
      by simp_all
    from b have o: "opened s = s"
      by (rule opened_ready)
    show "console (snd (delete_pdfs e s i)) = console s"
      by (simp add: run o file_cleanup_done [OF b r])
    show "uploads (snd (delete_pdfs e s i)) = (uploads s)(fileId d := None)"
      by (simp add: run o file_cleanup_done [OF b r])
  }
qed

theorem delete_best_effort_witness:
  "OID ''00000000000000000000f001'' \<notin> set (map doc_id (pdfs one_upload)) \<and>
   delete_pdfs env_fail one_upload ''00000000000000000000f001'' =
     (reply 404 (ErrorJson ''PDF not found'' None), one_upload) \<and>
   findById env_fail one_upload ''00000000000000000000d001'' = Inr (Some doc1) \<and>
   bucket_delete env_fail one_upload (fileId doc1) = Inl StorageFailure \<and>
   fst (delete_pdfs env_fail one_upload ''00000000000000000000d001'') =
     reply 200 (MessageJson ''PDF deleted successfully'') \<and>
   pdfs (snd (delete_pdfs env_fail one_upload ''00000000000000000000d001'')) = [] \<and>
   console (snd (delete_pdfs env_fail one_upload ''00000000000000000000d001'')) =
     console one_upload @ [CleanupWarning StorageFailure] \<and>
   uploads (snd (delete_pdfs env_fail one_upload ''00000000000000000000d001'')) =
     uploads one_upload"
proof -
  have n: "OID ''00000000000000000000f001'' \<notin> set (map doc_id (pdfs one_upload))"
    by (simp add: one_upload_fields doc1_def)
  have l: "CatFindOne \<notin> io_errors env_fail"
    by (simp add: env_fail_def)
  note t1 = delete_best_effort [THEN conjunct1, THEN spec, THEN mp, OF conjI, OF _ conjI,
      OF ObjectId_examples(1) l n]
  note f = findById_doc1(1)
  have c: "CatDelete \<notin> io_errors env_fail"
    by (simp add: env_fail_def)
  note t2 = delete_best_effort [THEN conjunct2, THEN spec, THEN mp, OF conjI, OF f c]
  have b: "gridfsBucket one_upload \<noteq> None"
    by (simp add: bucket_one_upload)
  have x: "bucket_delete env_fail one_upload (fileId doc1) = Inl StorageFailure"
    by (simp add: bucket_delete_def env_fail_def)
  from t2 have 1: "fst (delete_pdfs env_fail one_upload ''00000000000000000000d001'') =
     reply 200 (MessageJson ''PDF deleted successfully'')"
    by (rule conjunct1)
  from t2 have "pdfs (snd (delete_pdfs env_fail one_upload ''00000000000000000000d001'')) =
      delete_first (doc_id doc1) (pdfs one_upload)"
    by simp
  then have 2: "pdfs (snd (delete_pdfs env_fail one_upload ''00000000000000000000d001'')) = []"
    by (simp add: one_upload_fields)
  from t2 b x have 3: "console (snd (delete_pdfs env_fail one_upload ''00000000000000000000d001'')) =
     console one_upload @ [CleanupWarning StorageFailure] \<and>
   uploads (snd (delete_pdfs env_fail one_upload ''00000000000000000000d001'')) =
     uploads one_upload"
    by simp
  from n t1 f x 1 2 3 show ?thesis
    by (intro conjI) simp_all
qed

subsection \<open>C6\<close>

text \<open>
  Claim C6. When the write to the GridFS bucket fails with an I/O error (the upload
  stream's \<^verbatim>\<open>error\<close> event), the upload answers \<open>500\<close> with that error and the
  collection of documents is what it was: no metadata record is created.
\<close>

theorem storing_failure_creates_no_record:
  assumes "upload_single (upload_part rq) = Inr (Some f)" and "gridfsBucket s = Some b"
    and "GridWrite \<in> io_errors e"
  shows "fst (post_pdfs lit e s rq) =
           reply 500 (ErrorJson ''Failed to process PDF upload'' (Some StorageFailure)) \<and>
         pdfs (snd (post_pdfs lit e s rq)) = pdfs s"
  unfolding post_pdfs_ready [OF assms(1,2)]
  using assms(3) by (simp add: Let_def upload_failure_def)

theorem storing_failure_creates_no_record_witness:
  "upload_single (upload_part rq_min) = Inr (Some (memoryStorage one_byte)) \<and>
   gridfsBucket ready = Some \<lparr>bucketName = ''uploads'', chunkSizeBytes = 261120\<rparr> \<and>
   GridWrite \<in> io_errors env_write_fails \<and>
   fst (post_pdfs lit_nan env_write_fails ready rq_min) =
     reply 500 (ErrorJson ''Failed to process PDF upload'' (Some StorageFailure)) \<and>
   pdfs (snd (post_pdfs lit_nan env_write_fails ready rq_min)) = pdfs ready"
proof -
  have 1: "upload_single (upload_part rq_min) = Inr (Some (memoryStorage one_byte))"
    by (simp add: rq_min_def)
  have 2: "gridfsBucket ready = Some \<lparr>bucketName = ''uploads'', chunkSizeBytes = 261120\<rparr>"
    by simp
  have 3: "GridWrite \<in> io_errors env_write_fails"
    by (simp add: env_write_fails_def)
  note 4 = storing_failure_creates_no_record [OF 1 2 3, of lit_nan]
  from 1 2 3 4 show ?thesis
    by (intro conjI) simp_all
qed

subsection \<open>C7\<close>

text \<open>
  Claim C7. Creating the metadata record validates that \<open>title\<close> and \<open>category\<close> are
  present. When one of them is missing (absent, or the empty string), \<^verbatim>\<open>save\<close> fails with
  a \<open>ValidationError\<close> that names the missing paths, whatever the state; the upload
  never answers \<open>201\<close> and stores no document; and when it gets as far as \<^verbatim>\<open>save\<close>, it
  answers \<open>500\<close> with that \<open>ValidationError\<close>.
\<close>

theorem missing_title_or_category_rejected:
  assumes "missing (body rq ''title'') \<or> missing (body rq ''category'')"
  shows "pdfs (snd (post_pdfs lit e s rq)) = pdfs s \<and>
         status (fst (post_pdfs lit e s rq)) \<noteq> 201 \<and>
         (\<forall>f i st. validate_doc (new_Pdf lit e (body rq) f i) \<noteq> [] \<and>
            save e (new_Pdf lit e (body rq) f i) st =
              Inl (ValidationError (validate_doc (new_Pdf lit e (body rq) f i)))) \<and>
         (\<forall>f b. upload_single (upload_part rq) = Inr (Some f) \<and> gridfsBucket s = Some b \<and>
            GridWrite \<notin> io_errors e \<and> uploads s (fresh_file_id e) = None \<longrightarrow>
            fst (post_pdfs lit e s rq) =
              reply 500 (ErrorJson ''Failed to process PDF upload''
                (Some (ValidationError
                  (validate_doc (new_Pdf lit e (body rq) f (fresh_file_id e)))))))"
proof -
  note 1 = post_pdfs_invalid_unchanged [OF assms, of lit e s]
  have 2: "\<forall>f i st. validate_doc (new_Pdf lit e (body rq) f i) \<noteq> [] \<and>
            save e (new_Pdf lit e (body rq) f i) st =
              Inl (ValidationError (validate_doc (new_Pdf lit e (body rq) f i)))"
    using validate_doc_missing [OF assms, of lit e] by (simp add: save_eq)
  have 3: "\<forall>f b. upload_single (upload_part rq) = Inr (Some f) \<and> gridfsBucket s = Some b \<and>
            GridWrite \<notin> io_errors e \<and> uploads s (fresh_file_id e) = None \<longrightarrow>
            fst (post_pdfs lit e s rq) =
              reply 500 (ErrorJson ''Failed to process PDF upload''
                (Some (ValidationError
                  (validate_doc (new_Pdf lit e (body rq) f (fresh_file_id e))))))"
  proof (intro allI impI)
    fix f b
    assume h: "upload_single (upload_part rq) = Inr (Some f) \<and> gridfsBucket s = Some b \<and>
            GridWrite \<notin> io_errors e \<and> uploads s (fresh_file_id e) = None"
    then have f: "upload_single (upload_part rq) = Inr (Some f)" and b: "gridfsBucket s = Some b"
      by simp_all
    from h show "fst (post_pdfs lit e s rq) =
              reply 500 (ErrorJson ''Failed to process PDF upload''
                (Some (ValidationError
                  (validate_doc (new_Pdf lit e (body rq) f (fresh_file_id e))))))"
      unfolding post_pdfs_invalid [OF f b assms]
      by (simp add: upload_failure_def)
  qed
  from 1 2 3 show ?thesis
    by (intro conjI) simp_all
qed

theorem missing_title_or_category_rejected_witness:
  "missing (body rq_untitled ''title'') \<and>
   fst (post_pdfs lit_nan env1 ready rq_untitled) =
     reply 500 (ErrorJson ''Failed to process PDF upload'' (Some (ValidationError [''title'']))) \<and>
   pdfs (snd (post_pdfs lit_nan env1 ready rq_untitled)) = pdfs ready"
proof -
  have m: "missing (body rq_untitled ''title'')"
    by (simp add: rq_untitled_def missing_def)
  then have h: "missing (body rq_untitled ''title'') \<or> missing (body rq_untitled ''category'')"
    by (rule disjI1)
  note t = missing_title_or_category_rejected [OF h, of lit_nan env1 ready]
  have f: "upload_single (upload_part rq_untitled) = Inr (Some (memoryStorage one_byte))"
    by (simp add: rq_untitled_def)
  have v: "validate_doc (new_Pdf lit_nan env1 (body rq_untitled) (memoryStorage one_byte)
             (fresh_file_id env1)) = [''title'']"
    by (simp add: validate_doc_new_Pdf rq_untitled_def missing_def)
  from t f have "fst (post_pdfs lit_nan env1 ready rq_untitled) =
      reply 500 (ErrorJson ''Failed to process PDF upload''
        (Some (ValidationError (validate_doc (new_Pdf lit_nan env1 (body rq_untitled)
           (memoryStorage one_byte) (fresh_file_id env1))))))"
    by (simp add: env1_def)
  with v have 1: "fst (post_pdfs lit_nan env1 ready rq_untitled) =
     reply 500 (ErrorJson ''Failed to process PDF upload'' (Some (ValidationError [''title''])))"
    by simp
  from t have 2: "pdfs (snd (post_pdfs lit_nan env1 ready rq_untitled)) = pdfs ready"
    by (rule conjunct1)
  from m 1 2 show ?thesis
    by (intro conjI)
qed

subsection \<open>C8\<close>

text \<open>
  Claim C8. In every state of the collection, \<^verbatim>\<open>GET /api/pdfs\<close> (when the query does not
  fail) answers \<open>200\<close> with all the stored documents, each as often as it is stored,
  ordered by \<open>createdAt\<close> descending, and leaves the state as it is. Documents created
  at times 1000, 2000, 3000 come back in the order 3000, 2000, 1000.
\<close>

theorem list_newest_first:
  assumes "CatFind \<notin> io_errors e"
  shows "\<exists>ds. get_pdfs e s = (reply 200 (PdfsJson ds), s) \<and> mset ds = mset (pdfs s) \<and>
           sorted_wrt (\<lambda>a b. createdAt b \<le> createdAt a) ds"
proof -
  let ?ds = "sort_key (\<lambda>d. - createdAt d) (pdfs s)"
  from assms have 1: "get_pdfs e s = (reply 200 (PdfsJson ?ds), s)"
    by (simp add: get_pdfs_def find_sorted_def)
  have 2: "mset ?ds = mset (pdfs s)"
    by simp
  have "sorted (map (\<lambda>d. - createdAt d) ?ds)"
    by (rule sorted_sort_key)
  then have 3: "sorted_wrt (\<lambda>a b. createdAt b \<le> createdAt a) ?ds"
    by (simp add: sorted_map)
  show ?thesis
    by (intro exI [of _ ?ds] conjI) (fact 1 2 3)+
qed

theorem list_newest_first_witness:
  "map createdAt (pdfs three_uploads) = [1000, 2000, 3000] \<and>
   (\<exists>ds. get_pdfs env1 three_uploads = (reply 200 (PdfsJson ds), three_uploads) \<and>
         mset ds = mset (pdfs three_uploads) \<and>
         sorted_wrt (\<lambda>a b. createdAt b \<le> createdAt a) ds \<and>
         map createdAt ds = [3000, 2000, 1000])"
proof -
  have h: "CatFind \<notin> io_errors env1"
    by (simp add: env1_def)
  from list_newest_first [OF h, of three_uploads] obtain ds where
    1: "get_pdfs env1 three_uploads = (reply 200 (PdfsJson ds), three_uploads)" and
    2: "mset ds = mset (pdfs three_uploads)" and
    3: "sorted_wrt (\<lambda>a b. createdAt b \<le> createdAt a) ds"
    by metis
  from h have "get_pdfs env1 three_uploads =
      (reply 200 (PdfsJson (sort_key (\<lambda>d. - createdAt d) (pdfs three_uploads))), three_uploads)"
    by (simp add: get_pdfs_def find_sorted_def)
  with 1 have "ds = sort_key (\<lambda>d. - createdAt d) (pdfs three_uploads)"
    by simp
  then have 4: "map createdAt ds = [3000, 2000, 1000]"
    by (simp add: pdfs_three_uploads)
  have 0: "map createdAt (pdfs three_uploads) = [1000, 2000, 3000]"
    by (simp add: pdfs_three_uploads)
  from 1 2 3 4 have "\<exists>ds. get_pdfs env1 three_uploads = (reply 200 (PdfsJson ds), three_uploads) \<and>
         mset ds = mset (pdfs three_uploads) \<and>
         sorted_wrt (\<lambda>a b. createdAt b \<le> createdAt a) ds \<and>
         map createdAt ds = [3000, 2000, 1000]"
    by (intro exI [of _ ds] conjI)
  with 0 show ?thesis
    by (rule conjI)
qed

subsection \<open>C9\<close>

text \<open>
  Claim C9, as the code has it. The middleware reads the whole file part into one buffer
  before the handler runs: \<^verbatim>\<open>req.file.buffer\<close> is the concatenation of the pieces that
  arrived, at most 20 MiB long (a longer part is refused). The handler gives that buffer
  to the bucket's upload stream in a single write. It is the bucket that cuts it: after a
  successful upload the stored file's chunks are non-empty, at most the chunk size long,
  and their concatenation is the buffer.
\<close>

theorem upload_buffers_whole_file:
  assumes "upload_single (upload_part rq) = Inr (Some f)"
  shows "(\<exists>p. upload_part rq = Some p \<and> buffer f = concat (part_data p)) \<and>
         length (buffer f) \<le> fileSize \<and>
         stream_writes f = [buffer f] \<and>
         (\<forall>b. gridfsBucket s = Some b \<and> 0 < chunkSizeBytes b \<and>
              status (fst (post_pdfs lit e s rq)) = 201 \<longrightarrow>
            (\<exists>g. uploads (snd (post_pdfs lit e s rq)) (fresh_file_id e) = Some g \<and>
                 concat (chunks g) = buffer f \<and>
                 (\<forall>c\<in>set (chunks g). c \<noteq> [] \<and> length c \<le> chunkSizeBytes b)))"
proof -
  from assms obtain p where p: "upload_part rq = Some p" and f: "f = memoryStorage p"
    and n: "length (concat (part_data p)) \<le> fileSize"
    by (rule upload_single_Some)
  have buf: "buffer f = concat (part_data p)"
    by (simp add: f memoryStorage_def)
  with p have 1: "\<exists>p. upload_part rq = Some p \<and> buffer f = concat (part_data p)"
    by simp
  from n buf have 2: "length (buffer f) \<le> fileSize"
    by simp
  have 3: "stream_writes f = [buffer f]"
    by (simp add: stream_writes_def)
  have 4: "\<forall>b. gridfsBucket s = Some b \<and> 0 < chunkSizeBytes b \<and>
              status (fst (post_pdfs lit e s rq)) = 201 \<longrightarrow>
            (\<exists>g. uploads (snd (post_pdfs lit e s rq)) (fresh_file_id e) = Some g \<and>
                 concat (chunks g) = buffer f \<and>
                 (\<forall>c\<in>set (chunks g). c \<noteq> [] \<and> length c \<le> chunkSizeBytes b))"
  proof (intro allI impI)
    fix b
    assume h: "gridfsBucket s = Some b \<and> 0 < chunkSizeBytes b \<and>
              status (fst (post_pdfs lit e s rq)) = 201"
    then have b: "gridfsBucket s = Some b" and pos: "0 < chunkSizeBytes b"
      and st: "status (fst (post_pdfs lit e s rq)) = 201"
      by simp_all
    from st obtain f' b' where f': "upload_single (upload_part rq) = Inr (Some f')"
      and b': "gridfsBucket s = Some b'"
      and run: "post_pdfs lit e s rq =
        (reply 201 (PdfJson (new_Pdf lit e (body rq) f' (fresh_file_id e))),
         console_log (MetadataSaved (body rq ''title''))
           ((stored e b' f' s)\<lparr>pdfs := pdfs s @ [new_Pdf lit e (body rq) f' (fresh_file_id e)]\<rparr>))"
      by (rule post_pdfs_201)
    from f' assms have ff: "f' = f" by simp
    from b' b have bb: "b' = b" by simp
    let ?g = "\<lparr>filename = storage_name e, contentType = mimetype f,
                chunks = slice (chunkSizeBytes b) (buffer f)\<rparr>"
    have u: "uploads (snd (post_pdfs lit e s rq)) (fresh_file_id e) = Some ?g"
      by (simp add: run ff bb)
    from pos have c: "concat (chunks ?g) = buffer f"
      by (simp add: concat_slice)
    have l: "\<forall>c\<in>set (chunks ?g). c \<noteq> [] \<and> length c \<le> chunkSizeBytes b"
      using length_slice [of _ "chunkSizeBytes b" "buffer f"] by simp
    show "\<exists>g. uploads (snd (post_pdfs lit e s rq)) (fresh_file_id e) = Some g \<and>
                 concat (chunks g) = buffer f \<and>
                 (\<forall>c\<in>set (chunks g). c \<noteq> [] \<and> length c \<le> chunkSizeBytes b)"
      by (intro exI [of _ ?g] conjI) (fact u c l)+
  qed
  from 1 2 3 4 show ?thesis
    by (intro conjI)
qed

theorem upload_buffers_whole_file_witness:
  "upload_single (upload_part rq_min) = Inr (Some (memoryStorage one_byte)) \<and>
   buffer (memoryStorage one_byte) = [0x25] \<and>
   stream_writes (memoryStorage one_byte) = [[0x25]] \<and>
   status (fst (post_pdfs lit_nan env1 ready rq_min)) = 201 \<and>
   (\<exists>g. uploads (snd (post_pdfs lit_nan env1 ready rq_min)) (fresh_file_id env1) = Some g \<and>
        concat (chunks g) = [0x25] \<and> list_all (\<lambda>c. c \<noteq> [] \<and> length c \<le> 261120) (chunks g))"
proof -
  have f: "upload_single (upload_part rq_min) = Inr (Some (memoryStorage one_byte))"
    by (simp add: rq_min_def)
  have v: "buffer (memoryStorage one_byte) = [0x25]"
    by (simp add: memoryStorage_def one_byte_def)
  note t = upload_buffers_whole_file [OF f, of ready lit_nan env1]
  from t v have w: "stream_writes (memoryStorage one_byte) = [[0x25]]"
    by simp
  from t have "\<forall>b. gridfsBucket ready = Some b \<and> 0 < chunkSizeBytes b \<and>
              status (fst (post_pdfs lit_nan env1 ready rq_min)) = 201 \<longrightarrow>
            (\<exists>g. uploads (snd (post_pdfs lit_nan env1 ready rq_min)) (fresh_file_id env1) = Some g \<and>
                 concat (chunks g) = buffer (memoryStorage one_byte) \<and>
                 (\<forall>c\<in>set (chunks g). c \<noteq> [] \<and> length c \<le> chunkSizeBytes b))"
    by simp
  from this [THEN spec, of "\<lparr>bucketName = ''uploads'', chunkSizeBytes = 261120\<rparr>"] post_rq_min v
  have g: "\<exists>g. uploads (snd (post_pdfs lit_nan env1 ready rq_min)) (fresh_file_id env1) = Some g \<and>
        concat (chunks g) = [0x25] \<and> list_all (\<lambda>c. c \<noteq> [] \<and> length c \<le> 261120) (chunks g)"
    by (simp add: list_all_iff)
  from f v w post_rq_min g show ?thesis
    by (intro conjI)
qed

text \<open>
  Claim C9 as stated fails. A file part that arrives as a piece of 261120 bytes (the
  chunk size) and a piece of one byte is accepted, held as one buffer of 261121 bytes,
  and that buffer is the one write to the upload stream: what is held and written at
  once is the file, longer than a chunk.
\<close>

theorem whole_file_buffered_counterexample:
  "map length (part_data big_part) = [261120, 1] \<and>
   upload_single (Some big_part) = Inr (Some (memoryStorage big_part)) \<and>
   stream_writes (memoryStorage big_part) = [buffer (memoryStorage big_part)] \<and>
   length (buffer (memoryStorage big_part)) = 261121 \<and>
   gridfsBucket ready = Some \<lparr>bucketName = ''uploads'', chunkSizeBytes = 261120\<rparr>"
  by (simp add: big_part_def upload_single_def fileSize_def stream_writes_def memoryStorage_def)

subsection \<open>C10\<close>

text \<open>
  Claim C10. \<^verbatim>\<open>GET /api/pdfs/file/:id\<close> answers \<open>503\<close> when the handle \<^verbatim>\<open>gridfsBucket\<close>
  is not yet set, for every id, and changes nothing.
\<close>

theorem retrieval_before_ready:
  assumes "gridfsBucket s = None"
  shows "get_pdfs_file e s i = (reply 503 (ErrorJson ''Stream engine not ready'' None), s)"
  using assms by (simp add: get_pdfs_file_def)

theorem retrieval_before_ready_witness:
  "gridfsBucket startup = None \<and>
   get_pdfs_file env1 startup ''00000000000000000000f001'' =
     (reply 503 (ErrorJson ''Stream engine not ready'' None), startup)"
proof -
  have h: "gridfsBucket startup = None"
    by (simp add: startup_def)
  from h retrieval_before_ready [OF h] show ?thesis
    by (rule conjI)
qed

end
